theory Spec2Isabelle
  imports Main "HOL-Library.AList"
begin

section \<open>Snapshot data model (package snapshot)\<close>

text \<open>
  \<^verbatim>\<open>ResourceInfo\<close> and \<^verbatim>\<open>Snapshot\<close> of \<^verbatim>\<open>internal/snapshot\<close>. Go strings are byte
  strings, here \<open>string\<close>. The Go map \<^verbatim>\<open>Resources map[string]ResourceInfo\<close> is an
  association list: the order of the list stands for the (unspecified) order in which a
  \<^verbatim>\<open>range\<close> loop visits the map, lookup is \<open>map_of\<close>, and a Go map holds each key once
  (\<open>map_keys_distinct\<close>). \<^verbatim>\<open>Timestamp\<close> is the instant in nanoseconds.
\<close>

record ResourceInfo =
  GroupVersionKind :: string
  Namespace :: string
  Name :: string
  UID :: string
  ResourceVersion :: string
  CreationTimestamp :: string
  SpecHash :: string
  Manifest :: string

record Snapshot =
  Timestamp :: int
  Namespace_snapshot :: string
  Resources :: "(string \<times> ResourceInfo) list"

definition map_keys_distinct :: "Snapshot \<Rightarrow> bool" where
  "map_keys_distinct s = distinct (map fst (Resources s))"

text \<open>
  The key under which \<^verbatim>\<open>CaptureSnapshot\<close> stores a record:
  \<^verbatim>\<open>fmt.Sprintf("%s|%s|%s", gvk, namespace, name)\<close>.
\<close>

definition resourceKey :: "ResourceInfo \<Rightarrow> string" where
  "resourceKey r = GroupVersionKind r @ ''|'' @ Namespace r @ ''|'' @ Name r"

definition keyed :: "Snapshot \<Rightarrow> bool" where
  "keyed s = list_all (\<lambda>kv. fst kv = resourceKey (snd kv)) (Resources s)"

definition wf_snapshot :: "Snapshot \<Rightarrow> bool" where
  "wf_snapshot s = (map_keys_distinct s \<and> keyed s)"

section \<open>Diff engine (package diff)\<close>

datatype DiffType = Added | Removed | Modified

text \<open>The two pointer fields of \<^verbatim>\<open>ResourceDiff\<close> are options: \<open>None\<close> is \<^verbatim>\<open>nil\<close>.\<close>

record ResourceDiff =
  Type :: DiffType
  Resource :: ResourceInfo
  OldResourceVersion :: string
  NewResourceVersion :: string
  OldSpecHash :: string
  NewSpecHash :: string
  BaselineResource :: "ResourceInfo option"
  CurrentResource :: "ResourceInfo option"

text \<open>The fields of \<^verbatim>\<open>DiffResult\<close> carry their JSON names; the capitalised names are the
  constants of \<open>DiffType\<close>.\<close>

record DiffResult =
  added :: "ResourceDiff list"
  removed :: "ResourceDiff list"
  modified :: "ResourceDiff list"

definition IsEmpty :: "DiffResult \<Rightarrow> bool" where
  "IsEmpty d = (length (added d) = 0 \<and> length (removed d) = 0 \<and> length (modified d) = 0)"

text \<open>The three composite literals of \<^verbatim>\<open>Compare\<close>; a field the literal leaves out has
  Go's zero value.\<close>

definition added_entry :: "ResourceInfo \<Rightarrow> ResourceDiff" where
  "added_entry res =
     \<lparr>Type = Added, Resource = res,
      OldResourceVersion = '''', NewResourceVersion = '''',
      OldSpecHash = '''', NewSpecHash = '''',
      BaselineResource = None, CurrentResource = Some res\<rparr>"

definition modified_entry :: "ResourceInfo \<Rightarrow> ResourceInfo \<Rightarrow> ResourceDiff" where
  "modified_entry baseRes res =
     \<lparr>Type = Modified, Resource = res,
      OldResourceVersion = ResourceVersion baseRes, NewResourceVersion = ResourceVersion res,
      OldSpecHash = SpecHash baseRes, NewSpecHash = SpecHash res,
      BaselineResource = Some baseRes, CurrentResource = Some res\<rparr>"

definition removed_entry :: "ResourceInfo \<Rightarrow> ResourceDiff" where
  "removed_entry res =
     \<lparr>Type = Removed, Resource = res,
      OldResourceVersion = '''', NewResourceVersion = '''',
      OldSpecHash = '''', NewSpecHash = '''',
      BaselineResource = Some res, CurrentResource = None\<rparr>"

text \<open>First loop of \<^verbatim>\<open>Compare\<close>: \<^verbatim>\<open>for key, res := range current.Resources\<close>.\<close>

fun range_current ::
  "Snapshot \<Rightarrow> (string \<times> ResourceInfo) list \<Rightarrow> DiffResult \<Rightarrow> DiffResult" where
  "range_current baseline [] result = result"
| "range_current baseline ((key, res) # rest) result =
     range_current baseline rest
       (case map_of (Resources baseline) key of
          None \<Rightarrow> result\<lparr>added := added result @ [added_entry res]\<rparr>
        | Some baseRes \<Rightarrow>
            if ResourceVersion res \<noteq> ResourceVersion baseRes \<or> SpecHash res \<noteq> SpecHash baseRes
            then result\<lparr>modified := modified result @ [modified_entry baseRes res]\<rparr>
            else result)"

text \<open>Second loop: \<^verbatim>\<open>for key, res := range baseline.Resources\<close>.\<close>

fun range_baseline ::
  "Snapshot \<Rightarrow> (string \<times> ResourceInfo) list \<Rightarrow> DiffResult \<Rightarrow> DiffResult" where
  "range_baseline current [] result = result"
| "range_baseline current ((key, res) # rest) result =
     range_baseline current rest
       (case map_of (Resources current) key of
          None \<Rightarrow> result\<lparr>removed := removed result @ [removed_entry res]\<rparr>
        | Some _ \<Rightarrow> result)"

definition Compare :: "Snapshot \<Rightarrow> Snapshot \<Rightarrow> DiffResult" where
  "Compare baseline current =
     range_baseline current (Resources baseline)
       (range_current baseline (Resources current)
          \<lparr>added = [], removed = [], modified = []\<rparr>)"


text \<open>The identity of an emitted entry: the key of the record it displays.\<close>

definition entry_key :: "ResourceDiff \<Rightarrow> string" where
  "entry_key e = resourceKey (Resource e)"

definition keys_of :: "ResourceDiff list \<Rightarrow> string list" where
  "keys_of es = map entry_key es"

text \<open>The class the specification calls unchanged: the key is in both snapshots and
  neither the version token nor the hash differs.\<close>

definition unchanged :: "Snapshot \<Rightarrow> Snapshot \<Rightarrow> string \<Rightarrow> bool" where
  "unchanged baseline current k =
     (case map_of (Resources baseline) k of
        None \<Rightarrow> False
      | Some baseRes \<Rightarrow>
          (case map_of (Resources current) k of
             None \<Rightarrow> False
           | Some res \<Rightarrow>
               ResourceVersion res = ResourceVersion baseRes \<and> SpecHash res = SpecHash baseRes))"

text \<open>Exactly one of the listed conditions holds.\<close>

definition exactly_one :: "bool list \<Rightarrow> bool" where
  "exactly_one bs = (length (filter (\<lambda>b. b) bs) = 1)"

text \<open>What the first loop appends to \<open>modified\<close> for one entry of the current map.\<close>

definition modified_of :: "Snapshot \<Rightarrow> string \<times> ResourceInfo \<Rightarrow> ResourceDiff list" where
  "modified_of baseline kv =
     (case map_of (Resources baseline) (fst kv) of
        None \<Rightarrow> []
      | Some baseRes \<Rightarrow>
          if ResourceVersion (snd kv) \<noteq> ResourceVersion baseRes
             \<or> SpecHash (snd kv) \<noteq> SpecHash baseRes
          then [modified_entry baseRes (snd kv)] else [])"

subsection \<open>The before/after scenario of the specification\<close>

definition ex_deployment :: "string \<Rightarrow> ResourceInfo" where
  "ex_deployment rv =
     \<lparr>GroupVersionKind = ''apps/v1/Deployment'', Namespace = ''myapp'', Name = ''x'',
      UID = ''u1'', ResourceVersion = rv, CreationTimestamp = ''t'', SpecHash = ''h1'',
      Manifest = ''''\<rparr>"

definition ex_pod :: ResourceInfo where
  "ex_pod =
     \<lparr>GroupVersionKind = ''v1/Pod'', Namespace = ''myapp'', Name = ''old-pod'',
      UID = ''u2'', ResourceVersion = ''7'', CreationTimestamp = ''t'', SpecHash = ''h2'',
      Manifest = ''''\<rparr>"

definition ex_configmap :: ResourceInfo where
  "ex_configmap =
     \<lparr>GroupVersionKind = ''v1/ConfigMap'', Namespace = ''myapp'', Name = ''cfg'',
      UID = ''u3'', ResourceVersion = ''9'', CreationTimestamp = ''t'', SpecHash = ''h3'',
      Manifest = ''''\<rparr>"

definition ex_baseline :: Snapshot where
  "ex_baseline =
     \<lparr>Timestamp = 0, Namespace_snapshot = ''myapp'',
      Resources = [(''apps/v1/Deployment|myapp|x'', ex_deployment ''1''),
                   (''v1/Pod|myapp|old-pod'', ex_pod)]\<rparr>"

definition ex_current :: Snapshot where
  "ex_current =
     \<lparr>Timestamp = 1, Namespace_snapshot = ''myapp'',
      Resources = [(''v1/ConfigMap|myapp|cfg'', ex_configmap),
                   (''apps/v1/Deployment|myapp|x'', ex_deployment ''2'')]\<rparr>"


section \<open>Resource filter (package filter)\<close>

text \<open>
  Go's \<^verbatim>\<open>error\<close> values are their messages. A panic is a value of its own type, so that a
  function that may panic returns \<open>panic + 'a\<close>.
\<close>

type_synonym error = string

datatype panic = Panic string

text \<open>
  The package \<^verbatim>\<open>regexp\<close> of the Go library is a parameter of the model: the type \<open>'re\<close>
  of compiled expressions, \<^verbatim>\<open>regexp.Compile\<close> and the method \<^verbatim>\<open>MatchString\<close>.
\<close>

record 're regexp_pkg =
  regexp_Compile :: "string \<Rightarrow> error + 're"
  MatchString :: "'re \<Rightarrow> string \<Rightarrow> bool"

text \<open>\<^verbatim>\<open>regexp.MustCompile\<close> panics where \<^verbatim>\<open>regexp.Compile\<close> returns an error.\<close>

definition MustCompile :: "'re regexp_pkg \<Rightarrow> string \<Rightarrow> panic + 're" where
  "MustCompile P str =
     (case regexp_Compile P str of
        Inl err \<Rightarrow> Inl (Panic (''regexp: Compile('' @ str @ ''): '' @ err))
      | Inr re \<Rightarrow> Inr re)"

text \<open>\<^verbatim>\<open>strings.Join\<close>.\<close>

fun Join :: "string list \<Rightarrow> string \<Rightarrow> string" where
  "Join [] sep = ''''"
| "Join [x] sep = x"
| "Join (x # y # ys) sep = x @ sep @ Join (y # ys) sep"

record 're ResourceFilter =
  IncludePatterns :: "string list"
  ExcludePatterns :: "string list"
  compiledFilter :: "'re option"

text \<open>The two bytes \<^verbatim>\<open>\.\<close> that a Go source literal writes \<^verbatim>\<open>"\\."\<close>.\<close>

definition dot :: string where
  "dot = [CHR 0x5C, CHR ''.'']"

definition DefaultNoisyResources :: "string list" where
  "DefaultNoisyResources =
     [''^events'' @ dot @ ''k8s'' @ dot @ ''io/v1/Event$'',
      ''^events'' @ dot @ ''k8s'' @ dot @ ''io/v1beta1/Event$'',
      ''^v1/Event$'',
      ''^v1/Endpoints$'',
      ''^discovery'' @ dot @ ''k8s'' @ dot @ ''io/v1/EndpointSlice$'',
      ''^discovery'' @ dot @ ''k8s'' @ dot @ ''io/v1beta1/EndpointSlice$'',
      ''^coordination'' @ dot @ ''k8s'' @ dot @ ''io/v1/Lease$'',
      ''^v1/Pod$'',
      ''^admissionregistration'' @ dot @ ''k8s'' @ dot @ ''io/v1/MutatingWebhookConfiguration$'',
      ''^admissionregistration'' @ dot @ ''k8s'' @ dot @ ''io/v1/ValidatingWebhookConfiguration$'',
      ''^autoscaling/v[12]/HorizontalPodAutoscaler$'',
      ''^source'' @ dot @ ''toolkit'' @ dot @ ''fluxcd'' @ dot @ ''io/v1beta1/GitRepository$'',
      ''^source'' @ dot @ ''toolkit'' @ dot @ ''fluxcd'' @ dot @ ''io/v1beta2/GitRepository$'',
      ''^monitoring'' @ dot @ ''coreos'' @ dot @ ''com/v1/ServiceMonitor$'',
      ''^monitoring'' @ dot @ ''coreos'' @ dot @ ''com/v1/PodMonitor$'',
      ''^v1/Node$'',
      ''^helm'' @ dot @ ''toolkit'' @ dot @ ''fluxcd'' @ dot @ ''io/v1/HelmRelease$'',
      ''^helm'' @ dot @ ''toolkit'' @ dot @ ''fluxcd'' @ dot @ ''io/v2beta1/HelmRelease$'',
      ''^helm'' @ dot @ ''toolkit'' @ dot @ ''fluxcd'' @ dot @ ''io/v2/HelmRelease$'',
      ''^helm'' @ dot @ ''toolkit'' @ dot @ ''fluxcd'' @ dot @ ''io/v2beta2/HelmRelease$'',
      ''^kommander'' @ dot @ ''d2iq'' @ dot @ ''io/v1alpha2/HelmReleaseStatus$'',
      ''^kommander'' @ dot @ ''d2iq'' @ dot @ ''io/v1alpha1/HelmReleaseStatus$'']"

definition NewResourceFilter :: "'re ResourceFilter" where
  "NewResourceFilter = \<lparr>IncludePatterns = [], ExcludePatterns = [], compiledFilter = None\<rparr>"

definition WithNoisy :: "'re ResourceFilter \<Rightarrow> 're ResourceFilter" where
  "WithNoisy rf = rf\<lparr>ExcludePatterns := ExcludePatterns rf @ DefaultNoisyResources\<rparr>"

definition WithExcludes :: "string list \<Rightarrow> 're ResourceFilter \<Rightarrow> 're ResourceFilter" where
  "WithExcludes patterns rf = rf\<lparr>ExcludePatterns := ExcludePatterns rf @ patterns\<rparr>"

definition WithIncludes :: "string list \<Rightarrow> 're ResourceFilter \<Rightarrow> 're ResourceFilter" where
  "WithIncludes patterns rf = rf\<lparr>IncludePatterns := IncludePatterns rf @ patterns\<rparr>"

text \<open>
  \<^verbatim>\<open>Compile\<close> writes \<^verbatim>\<open>rf.compiledFilter\<close> and returns an error or \<^verbatim>\<open>nil\<close>: here it
  returns the error, or the filter after the write. On an error the filter is as it was.
\<close>

definition Compile :: "'re regexp_pkg \<Rightarrow> 're ResourceFilter \<Rightarrow> error + 're ResourceFilter" where
  "Compile P rf =
     (if length (ExcludePatterns rf) = 0 then Inr (rf\<lparr>compiledFilter := None\<rparr>)
      else
        let pattern = ''('' @ Join (ExcludePatterns rf) '')|('' @ '')'' in
        case regexp_Compile P pattern of
          Inl err \<Rightarrow> Inl err
        | Inr compiled \<Rightarrow> Inr (rf\<lparr>compiledFilter := Some compiled\<rparr>))"

text \<open>The loop over \<^verbatim>\<open>rf.IncludePatterns\<close> in \<^verbatim>\<open>ShouldExclude\<close>, up to the
  \<^verbatim>\<open>return true\<close> after it.\<close>

fun range_includes :: "'re regexp_pkg \<Rightarrow> string list \<Rightarrow> string \<Rightarrow> panic + bool" where
  "range_includes P [] resourceType = Inr True"
| "range_includes P (include # rest) resourceType =
     (case MustCompile P include of
        Inl p \<Rightarrow> Inl p
      | Inr re \<Rightarrow>
          if MatchString P re resourceType then Inr False
          else range_includes P rest resourceType)"

definition ShouldExclude :: "'re regexp_pkg \<Rightarrow> 're ResourceFilter \<Rightarrow> string \<Rightarrow> panic + bool" where
  "ShouldExclude P rf resourceType =
     (case compiledFilter rf of
        None \<Rightarrow> Inr False
      | Some cf \<Rightarrow>
          if MatchString P cf resourceType
          then range_includes P (IncludePatterns rf) resourceType
          else Inr False)"

text \<open>
  The words of the specification: a label matches a pattern when the pattern compiles and
  the compiled expression matches the label; a label is excluded if and only if it
  matches the compiled exclude alternation and matches no include pattern.
\<close>

definition matches_pattern :: "'re regexp_pkg \<Rightarrow> string \<Rightarrow> string \<Rightarrow> bool" where
  "matches_pattern P pattern label =
     (case regexp_Compile P pattern of Inl _ \<Rightarrow> False | Inr re \<Rightarrow> MatchString P re label)"

definition matches_excludes :: "'re regexp_pkg \<Rightarrow> 're ResourceFilter \<Rightarrow> string \<Rightarrow> bool" where
  "matches_excludes P rf label =
     (case compiledFilter rf of None \<Rightarrow> False | Some cf \<Rightarrow> MatchString P cf label)"

definition excluded_spec :: "'re regexp_pkg \<Rightarrow> 're ResourceFilter \<Rightarrow> string \<Rightarrow> bool" where
  "excluded_spec P rf label =
     (matches_excludes P rf label
      \<and> \<not> list_ex (\<lambda>include. matches_pattern P include label) (IncludePatterns rf))"

definition valid_pattern :: "'re regexp_pkg \<Rightarrow> string \<Rightarrow> bool" where
  "valid_pattern P pattern = (case regexp_Compile P pattern of Inl _ \<Rightarrow> False | Inr _ \<Rightarrow> True)"

subsection \<open>A reference implementation of the regexp parameter\<close>

text \<open>
  An instance of \<open>regexp_pkg\<close> for a fragment of the syntax of Go's \<^verbatim>\<open>regexp\<close>: literal
  characters, \<^verbatim>\<open>.\<close>, the anchors \<^verbatim>\<open>^\<close> and \<^verbatim>\<open>$\<close> (begin and end of the text), groups,
  alternation, a backslash before a punctuation character, and a bracket class that
  lists its members. It rejects every other pattern, so it agrees with Go only inside the
  fragment; all default patterns are inside. An unbalanced parenthesis is an error here
  as in Go. The general theorems quantify over the parameter; this instance evaluates
  them at concrete patterns. \<^verbatim>\<open>MatchString\<close> looks for a match anywhere in the text.
\<close>

datatype rx = Lit char | AnyChar | Bol | Eol | Emp | Cls "char list" | Cat rx rx | Alt rx rx

text \<open>A frame of the parser: the alternatives of the open group that are complete, and
  the concatenation being read.\<close>

type_synonym rx_frame = "rx list \<times> rx"

definition rx_close :: "rx_frame \<Rightarrow> rx" where
  "rx_close f = foldr Alt (fst f) (snd f)"

definition rx_add :: "rx_frame \<Rightarrow> rx \<Rightarrow> rx_frame" where
  "rx_add f r = (fst f, Cat (snd f) r)"

definition rx_punct :: string where
  "rx_punct = CHR 0x5C # ''.+*?()|[]{}^$/-''"

function rx_parse :: "rx_frame \<Rightarrow> rx_frame list \<Rightarrow> string \<Rightarrow> error + rx" where
  "rx_parse fr st [] =
     (if st = [] then Inr (rx_close fr) else Inl ''missing closing )'')"
| "rx_parse fr st (c # cs) =
     (if c = CHR ''('' then rx_parse ([], Emp) (fr # st) cs
      else if c = CHR '')'' then
        (case st of
           [] \<Rightarrow> Inl ''unexpected )''
         | outer # st' \<Rightarrow> rx_parse (rx_add outer (rx_close fr)) st' cs)
      else if c = CHR ''|'' then rx_parse (fst fr @ [snd fr], Emp) st cs
      else if c = CHR ''^'' then rx_parse (rx_add fr Bol) st cs
      else if c = CHR ''$'' then rx_parse (rx_add fr Eol) st cs
      else if c = CHR ''.'' then rx_parse (rx_add fr AnyChar) st cs
      else if c = CHR 0x5C then
        (case cs of
           [] \<Rightarrow> Inl ''trailing backslash at end of expression''
         | d # ds \<Rightarrow>
             if d \<in> set rx_punct then rx_parse (rx_add fr (Lit d)) st ds
             else Inl ''escape outside the fragment'')
      else if c = CHR ''['' then
        (if dropWhile (\<lambda>x. x \<noteq> CHR '']'') cs = [] then Inl ''missing closing ]''
         else if takeWhile (\<lambda>x. x \<noteq> CHR '']'') cs = []
               \<or> list_ex (\<lambda>x. x \<in> set (CHR 0x5C # ''^-['')) (takeWhile (\<lambda>x. x \<noteq> CHR '']'') cs)
         then Inl ''character class outside the fragment''
         else rx_parse (rx_add fr (Cls (takeWhile (\<lambda>x. x \<noteq> CHR '']'') cs))) st
                (tl (dropWhile (\<lambda>x. x \<noteq> CHR '']'') cs)))
      else if c \<in> set ''*+?{}]'' then Inl ''operator outside the fragment''
      else rx_parse (rx_add fr (Lit c)) st cs)"
  by pat_completeness auto
termination
proof (relation "measure (\<lambda>(fr, st, s). length s)")
  show "wf (measure (\<lambda>(fr :: rx_frame, st :: rx_frame list, s :: string). length s))"
    by simp
next
  fix fr :: rx_frame and st :: "rx_frame list" and c :: char and cs :: string
  have "length (tl (dropWhile (\<lambda>x. x \<noteq> CHR '']'') cs)) \<le> length cs"
    using length_dropWhile_le [of "\<lambda>x. x \<noteq> CHR '']''" cs] by simp
  then show "((rx_add fr (Cls (takeWhile (\<lambda>x. x \<noteq> CHR '']'') cs)), st,
              tl (dropWhile (\<lambda>x. x \<noteq> CHR '']'') cs)), fr, st, c # cs)
             \<in> measure (\<lambda>(fr, st, s). length s)"
    by simp
qed auto

definition rx_Compile :: "string \<Rightarrow> error + rx" where
  "rx_Compile str =
     (case rx_parse ([], Emp) [] str of
        Inl msg \<Rightarrow> Inl (''error parsing regexp: '' @ msg)
      | Inr r \<Rightarrow> Inr r)"

text \<open>
  A position in the text is the rest of the text and whether it is the beginning.
  \<open>rx_step r p\<close> lists the positions at which a match of \<open>r\<close> that starts at \<open>p\<close> can end.
\<close>

fun rx_step :: "rx \<Rightarrow> bool \<times> string \<Rightarrow> (bool \<times> string) list" where
  "rx_step (Lit c) p =
     (case snd p of [] \<Rightarrow> [] | x # xs \<Rightarrow> if x = c then [(False, xs)] else [])"
| "rx_step AnyChar p =
     (case snd p of [] \<Rightarrow> [] | x # xs \<Rightarrow> if x \<noteq> CHR 0x0A then [(False, xs)] else [])"
| "rx_step (Cls cs) p =
     (case snd p of [] \<Rightarrow> [] | x # xs \<Rightarrow> if x \<in> set cs then [(False, xs)] else [])"
| "rx_step Bol p = (if fst p then [p] else [])"
| "rx_step Eol p = (if snd p = [] then [p] else [])"
| "rx_step Emp p = [p]"
| "rx_step (Cat r1 r2) p = concat (map (rx_step r2) (rx_step r1 p))"
| "rx_step (Alt r1 r2) p = rx_step r1 p @ rx_step r2 p"

fun rx_search :: "rx \<Rightarrow> bool \<Rightarrow> string \<Rightarrow> bool" where
  "rx_search r start [] = (rx_step r (start, []) \<noteq> [])"
| "rx_search r start (x # xs) = (rx_step r (start, x # xs) \<noteq> [] \<or> rx_search r False xs)"

definition rx_MatchString :: "rx \<Rightarrow> string \<Rightarrow> bool" where
  "rx_MatchString r s = rx_search r True s"

definition rx_pkg :: "rx regexp_pkg" where
  "rx_pkg = \<lparr>regexp_Compile = rx_Compile, MatchString = rx_MatchString\<rparr>"

text \<open>Filters built with the builder methods, and the filter that \<^verbatim>\<open>Compile\<close> leaves
  behind, for the evaluation of the theorems at concrete patterns.\<close>

definition ex_filter :: "string list \<Rightarrow> string list \<Rightarrow> rx ResourceFilter" where
  "ex_filter includes excludes =
     WithIncludes includes (WithExcludes excludes NewResourceFilter)"

definition ex_compiled :: "rx ResourceFilter \<Rightarrow> rx ResourceFilter" where
  "ex_compiled rf = (case Compile rx_pkg rf of Inl _ \<Rightarrow> rf | Inr rf' \<Rightarrow> rf')"

section \<open>Presentation state machine (package tui)\<close>

datatype state =
    stateReady
  | stateCapturingBaseline
  | stateBaselineCaptured
  | stateCapturingCurrent
  | stateShowingDiff
  | stateShowingResourceDetail
  | stateError

text \<open>
  A key binding is the list of its keys, and \<^verbatim>\<open>key.Matches\<close> holds when the pressed key is
  one of them (no binding is ever disabled). The four filter bindings carry the suffix
  \<open>_key\<close>: their Go names are also the constants of \<open>FilterType\<close>.
\<close>

record KeyMap =
  Capture :: "string list"
  Continue :: "string list"
  Back :: "string list"
  Quit :: "string list"
  ForceQuit :: "string list"
  Help :: "string list"
  ToggleView :: "string list"
  Up :: "string list"
  Down :: "string list"
  PageUp :: "string list"
  PageDown :: "string list"
  Enter :: "string list"
  FilterAll_key :: "string list"
  FilterAdded_key :: "string list"
  FilterRemoved_key :: "string list"
  FilterModified_key :: "string list"
  Escape :: "string list"
  CopyYAML :: "string list"

definition DefaultKeyMap :: KeyMap where
  "DefaultKeyMap =
     \<lparr>Capture = [''c''], Continue = [''c''], Back = [''b''], Quit = [''q''],
      ForceQuit = [''ctrl+c''], Help = [''?''], ToggleView = [''tab''],
      Up = [''up'', ''k''], Down = [''down'', ''j''], PageUp = [''pgup''],
      PageDown = [''pgdown''], Enter = [''enter''],
      FilterAll_key = [''0''], FilterAdded_key = [''1''], FilterRemoved_key = [''2''],
      FilterModified_key = [''3''], Escape = [''esc''], CopyYAML = [''y'']\<rparr>"

definition Matches :: "string \<Rightarrow> string list \<Rightarrow> bool" where
  "Matches msg binding = (msg \<in> set binding)"

datatype FilterType = FilterAll | FilterAdded | FilterRemoved | FilterModified

text \<open>
  The commands that \<^verbatim>\<open>Update\<close> returns. A command that closes over the model carries the
  fields its closure reads. \<open>tea_Quit\<close> is \<^verbatim>\<open>tea.Quit\<close>, the command that ends the loop of
  the program; \<open>nil_cmd\<close> is \<^verbatim>\<open>nil\<close>.
\<close>

datatype cmd =
    tea_Quit
  | nil_cmd
  | captureBaselineCmd
  | captureCurrentStateCmd
  | spinner_Tick
  | viewport_cmd
  | updateDiffOutputCmd string "DiffResult option"
  | updateTableWithFilterCmd FilterType "DiffResult option"
  | loadResourceDetailCmd "ResourceDiff option"
  | hideStatusMessageCmd nat
  | tea_Batch "cmd list"

datatype msg =
    KeyMsg string
  | WindowSizeMsg int int
  | spinner_TickMsg
  | baselineCapturedMsg "Snapshot option" "error option"
  | currentStateCapturedMsg "Snapshot option" "error option"
  | diffOutputUpdatedMsg string
  | resourceDetailLoadedMsg string
  | tableUpdatedMsg "string list list"
  | clearStatusMessageMsg
  | other_msg

text \<open>
  The widgets of the libraries \<^verbatim>\<open>bubbles\<close> (table, viewport, spinner, help) and the clipboard
  are parameters: \<open>'w\<close> is the state of the widgets of a model, and the record below holds
  the operations that \<^verbatim>\<open>Update\<close> calls on them. \<open>resize\<close> is the rebuilding of the viewport
  and of the table in the \<^verbatim>\<open>WindowSizeMsg\<close> branch, from the new size, \<^verbatim>\<open>showHelp\<close> and
  \<^verbatim>\<open>diffOutput\<close>.
\<close>

record 'w ui_pkg =
  new_widgets :: "'w"
  table_Focused :: "'w \<Rightarrow> bool"
  table_SelectedRow :: "'w \<Rightarrow> string list"
  table_MoveUp :: "nat \<Rightarrow> 'w \<Rightarrow> 'w"
  table_MoveDown :: "nat \<Rightarrow> 'w \<Rightarrow> 'w"
  table_SetRows :: "string list list \<Rightarrow> 'w \<Rightarrow> 'w"
  viewport_LineUp :: "nat \<Rightarrow> 'w \<Rightarrow> 'w"
  viewport_LineDown :: "nat \<Rightarrow> 'w \<Rightarrow> 'w"
  viewport_PageUp :: "'w \<Rightarrow> 'w"
  viewport_PageDown :: "'w \<Rightarrow> 'w"
  viewport_SetContent :: "string \<Rightarrow> 'w \<Rightarrow> 'w"
  viewport_GotoTop :: "'w \<Rightarrow> 'w"
  resize :: "int \<Rightarrow> int \<Rightarrow> bool \<Rightarrow> string \<Rightarrow> 'w \<Rightarrow> 'w"
  spinner_Update :: "'w \<Rightarrow> 'w"
  clipboard_WriteAll :: "string \<Rightarrow> error option"

text \<open>
  \<^verbatim>\<open>Model\<close>. The fields \<^verbatim>\<open>help\<close>, \<^verbatim>\<open>spinner\<close>, \<^verbatim>\<open>viewport\<close> and \<^verbatim>\<open>table\<close> are \<open>widgets\<close>.
  Left out: \<^verbatim>\<open>clusterInfo\<close>, which \<^verbatim>\<open>Update\<close> neither reads nor writes, and
  \<^verbatim>\<open>statusMessageTime\<close>, which it writes from the clock and never reads. The three pointer
  fields are options.
\<close>

record 'w Model =
  state :: state
  keyMap :: KeyMap
  width :: int
  height :: int
  namespace :: string
  ignorePattern :: string
  kubeconfigPath :: string
  baseline :: "Snapshot option"
  current :: "Snapshot option"
  diffResult :: "DiffResult option"
  diffOutput :: string
  error :: "error option"
  showHelp :: bool
  outputFormat :: string
  selectedResource :: "ResourceDiff option"
  resourceFilter :: FilterType
  statusMessage :: string
  widgets :: 'w

definition New :: "'w ui_pkg \<Rightarrow> string \<Rightarrow> string \<Rightarrow> string \<Rightarrow> 'w Model" where
  "New U ns ignore kubeconfig =
     \<lparr>state = stateReady, keyMap = DefaultKeyMap, width = 0, height = 0,
      namespace = ns, ignorePattern = ignore, kubeconfigPath = kubeconfig,
      baseline = None, current = None, diffResult = None, diffOutput = '''',
      error = None, showHelp = True, outputFormat = ''table'',
      selectedResource = None, resourceFilter = FilterAll, statusMessage = '''',
      widgets = new_widgets U\<rparr>"

text \<open>The arrow of the modified rows, and the two marks of the status messages, in UTF-8.\<close>

definition arrow :: string where
  "arrow = [CHR 0xE2, CHR 0x86, CHR 0x92]"

definition check_mark :: string where
  "check_mark = [CHR 0xE2, CHR 0x9C, CHR 0x93]"

definition ballot_x :: string where
  "ballot_x = [CHR 0xE2, CHR 0x9C, CHR 0x97]"

definition plain_row :: "string \<Rightarrow> ResourceDiff \<Rightarrow> string list" where
  "plain_row operation res =
     [operation, GroupVersionKind (Resource res), Namespace (Resource res), Name (Resource res),
      ResourceVersion (Resource res), SpecHash (Resource res)]"

definition modified_row :: "ResourceDiff \<Rightarrow> string list" where
  "modified_row res =
     [''Modified'', GroupVersionKind (Resource res), Namespace (Resource res),
      Name (Resource res),
      OldResourceVersion res @ '' '' @ arrow @ '' '' @ NewResourceVersion res,
      OldSpecHash res @ '' '' @ arrow @ '' '' @ NewSpecHash res]"

definition buildTableRows :: "DiffResult \<Rightarrow> string list list" where
  "buildTableRows d =
     map (plain_row ''Added'') (added d) @ map (plain_row ''Removed'') (removed d)
     @ map modified_row (modified d)"

text \<open>\<^verbatim>\<open>findSelectedResource\<close>: the first entry of the sequence named by the row whose kind,
  namespace and name are those of the row.\<close>

definition findSelectedResource :: "'w Model \<Rightarrow> string list \<Rightarrow> ResourceDiff option" where
  "findSelectedResource m selectedRow =
     (if length selectedRow < 6 then None
      else case diffResult m of
        None \<Rightarrow> None
      | Some d \<Rightarrow>
          let operation = selectedRow ! 0; kind = selectedRow ! 1;
              ns = selectedRow ! 2; name = selectedRow ! 3
          in if operation \<noteq> ''Added'' \<and> operation \<noteq> ''Removed'' \<and> operation \<noteq> ''Modified''
             then None
             else find (\<lambda>res. GroupVersionKind (Resource res) = kind
                            \<and> Namespace (Resource res) = ns
                            \<and> Name (Resource res) = name)
                    (if operation = ''Added'' then added d
                     else if operation = ''Removed'' then removed d
                     else modified d))"

text \<open>The manifest that the \<^verbatim>\<open>CopyYAML\<close> case picks for the selected entry.\<close>

definition manifest_or_empty :: "ResourceInfo option \<Rightarrow> string" where
  "manifest_or_empty r = (case r of None \<Rightarrow> '''' | Some info \<Rightarrow> Manifest info)"

definition yamlManifest_of :: "ResourceDiff \<Rightarrow> string" where
  "yamlManifest_of sel =
     (case Type sel of
        Added \<Rightarrow> manifest_or_empty (CurrentResource sel)
      | Removed \<Rightarrow> manifest_or_empty (BaselineResource sel)
      | Modified \<Rightarrow>
          if manifest_or_empty (CurrentResource sel) \<noteq> ''''
          then manifest_or_empty (CurrentResource sel)
          else manifest_or_empty (BaselineResource sel))"

text \<open>
  The \<^verbatim>\<open>switch\<close> of the \<^verbatim>\<open>tea.KeyMsg\<close> branch. \<open>Inl\<close> is a \<^verbatim>\<open>return\<close> inside the switch,
  \<open>Inr\<close> the model and the commands collected when control leaves the switch.
\<close>

definition copy_yaml ::
  "'w ui_pkg \<Rightarrow> 'w Model \<Rightarrow> ('w Model \<times> cmd) + ('w Model \<times> cmd list)" where
  "copy_yaml U m =
     (case selectedResource m of
        None \<Rightarrow> Inr (m, [])
      | Some sel \<Rightarrow>
          if state m \<noteq> stateShowingResourceDetail then Inr (m, [])
          else if yamlManifest_of sel \<noteq> '''' then
            (case clipboard_WriteAll U (yamlManifest_of sel) of
               None \<Rightarrow>
                 Inl (m\<lparr>statusMessage := check_mark @ '' YAML copied to clipboard''\<rparr>,
                      hideStatusMessageCmd 3)
             | Some err \<Rightarrow>
                 Inl (m\<lparr>statusMessage := ballot_x @ '' Failed to copy to clipboard: '' @ err\<rparr>,
                      hideStatusMessageCmd 3))
          else
            Inl (m\<lparr>statusMessage := ballot_x @ '' No YAML manifest available to copy''\<rparr>,
                 hideStatusMessageCmd 3))"

definition toggle_view :: "'w Model \<Rightarrow> 'w Model \<times> cmd list" where
  "toggle_view m =
     (if outputFormat m = ''table''
      then (m\<lparr>outputFormat := ''yaml''\<rparr>, [updateDiffOutputCmd ''yaml'' (diffResult m)])
      else if outputFormat m = ''yaml''
      then (m\<lparr>outputFormat := ''json''\<rparr>, [updateDiffOutputCmd ''json'' (diffResult m)])
      else if outputFormat m = ''json''
      then (m\<lparr>outputFormat := ''table''\<rparr>, [updateDiffOutputCmd ''table'' (diffResult m)])
      else (m, [nil_cmd]))"

definition set_filter :: "FilterType \<Rightarrow> 'w Model \<Rightarrow> 'w Model \<times> cmd list" where
  "set_filter f m =
     (if resourceFilter m \<noteq> f
      then (m\<lparr>resourceFilter := f\<rparr>, [updateTableWithFilterCmd f (diffResult m)])
      else (m, []))"

definition go_back :: "'w Model \<Rightarrow> 'w Model" where
  "go_back m =
     (case state m of
        stateBaselineCaptured \<Rightarrow> m\<lparr>state := stateReady, baseline := None\<rparr>
      | stateShowingDiff \<Rightarrow>
          m\<lparr>state := stateBaselineCaptured, current := None, diffResult := None,
            diffOutput := ''''\<rparr>
      | stateShowingResourceDetail \<Rightarrow> m\<lparr>state := stateShowingDiff, selectedResource := None\<rparr>
      | _ \<Rightarrow> m)"

definition open_detail :: "'w ui_pkg \<Rightarrow> 'w Model \<Rightarrow> 'w Model \<times> cmd list" where
  "open_detail U m =
     (if \<not> table_Focused U (widgets m) then (m, [])
      else if length (table_SelectedRow U (widgets m)) = 0 then (m, [])
      else case findSelectedResource m (table_SelectedRow U (widgets m)) of
        None \<Rightarrow> (m, [])
      | Some resourceDiff \<Rightarrow>
          (m\<lparr>selectedResource := Some resourceDiff, state := stateShowingResourceDetail\<rparr>,
           [loadResourceDetailCmd (Some resourceDiff)]))"

definition key_switch ::
  "'w ui_pkg \<Rightarrow> string \<Rightarrow> 'w Model \<Rightarrow> ('w Model \<times> cmd) + ('w Model \<times> cmd list)" where
  "key_switch U msg m =
     (if Matches msg (ForceQuit (keyMap m)) then Inl (m, tea_Quit)
      else if Matches msg (Quit (keyMap m)) then
        (if state m = stateShowingResourceDetail
         then Inl (m\<lparr>state := stateShowingDiff\<rparr>, nil_cmd)
         else if state m \<noteq> stateCapturingBaseline \<and> state m \<noteq> stateCapturingCurrent
         then Inl (m, tea_Quit)
         else Inr (m, []))
      else if Matches msg (Escape (keyMap m)) \<and> state m = stateShowingResourceDetail
      then Inl (m\<lparr>state := stateShowingDiff, selectedResource := None\<rparr>, nil_cmd)
      else if Matches msg (CopyYAML (keyMap m)) then copy_yaml U m
      else if Matches msg (Help (keyMap m)) then Inr (m\<lparr>showHelp := \<not> showHelp m\<rparr>, [])
      else if Matches msg (ToggleView (keyMap m)) \<and> state m = stateShowingDiff
      then Inr (toggle_view m)
      else if Matches msg (FilterAll_key (keyMap m)) \<and> state m = stateShowingDiff
      then Inr (set_filter FilterAll m)
      else if Matches msg (FilterAdded_key (keyMap m)) \<and> state m = stateShowingDiff
      then Inr (set_filter FilterAdded m)
      else if Matches msg (FilterRemoved_key (keyMap m)) \<and> state m = stateShowingDiff
      then Inr (set_filter FilterRemoved m)
      else if Matches msg (FilterModified_key (keyMap m)) \<and> state m = stateShowingDiff
      then Inr (set_filter FilterModified m)
      else if Matches msg (Capture (keyMap m)) \<and> state m = stateReady
      then Inr (m\<lparr>state := stateCapturingBaseline\<rparr>, [captureBaselineCmd, spinner_Tick])
      else if Matches msg (Continue (keyMap m)) \<and> state m = stateBaselineCaptured
      then Inr (m\<lparr>state := stateCapturingCurrent\<rparr>, [captureCurrentStateCmd, spinner_Tick])
      else if Matches msg (Continue (keyMap m)) \<and> state m = stateShowingDiff
      then Inr (m\<lparr>baseline := current m, current := None, diffResult := None,
                   diffOutput := '''', state := stateCapturingCurrent\<rparr>,
                [captureCurrentStateCmd, spinner_Tick])
      else if Matches msg (Back (keyMap m)) then Inr (go_back m, [])
      else if Matches msg (Enter (keyMap m)) \<and> state m = stateShowingDiff
              \<and> outputFormat m = ''table''
      then Inr (open_detail U m)
      else Inr (m, []))"

text \<open>The scrolling after the switch. In the table view the four navigation keys return
  at once with \<^verbatim>\<open>nil\<close>; everywhere else control goes on to the final \<^verbatim>\<open>return\<close>.\<close>

definition scroll_viewport :: "'w ui_pkg \<Rightarrow> string \<Rightarrow> 'w Model \<Rightarrow> 'w Model" where
  "scroll_viewport U msg m =
     (if Matches msg (Up (keyMap m)) then m\<lparr>widgets := viewport_LineUp U 1 (widgets m)\<rparr>
      else if Matches msg (Down (keyMap m)) then m\<lparr>widgets := viewport_LineDown U 1 (widgets m)\<rparr>
      else if Matches msg (PageUp (keyMap m)) then m\<lparr>widgets := viewport_PageUp U (widgets m)\<rparr>
      else if Matches msg (PageDown (keyMap m)) then m\<lparr>widgets := viewport_PageDown U (widgets m)\<rparr>
      else m)"

definition key_scroll ::
  "'w ui_pkg \<Rightarrow> string \<Rightarrow> 'w Model \<Rightarrow> ('w Model \<times> cmd) + 'w Model" where
  "key_scroll U msg m =
     (if state m = stateShowingDiff then
        (if outputFormat m = ''table'' then
           (if Matches msg (Up (keyMap m))
            then Inl (m\<lparr>widgets := table_MoveUp U 1 (widgets m)\<rparr>, nil_cmd)
            else if Matches msg (Down (keyMap m))
            then Inl (m\<lparr>widgets := table_MoveDown U 1 (widgets m)\<rparr>, nil_cmd)
            else if Matches msg (PageUp (keyMap m))
            then Inl (m\<lparr>widgets := table_MoveUp U 10 (widgets m)\<rparr>, nil_cmd)
            else if Matches msg (PageDown (keyMap m))
            then Inl (m\<lparr>widgets := table_MoveDown U 10 (widgets m)\<rparr>, nil_cmd)
            else Inr m)
         else Inr (scroll_viewport U msg m))
      else if state m = stateShowingResourceDetail then Inr (scroll_viewport U msg m)
      else Inr m)"

text \<open>\<^verbatim>\<open>diff.Compare\<close> on the two pointers of the model: a \<^verbatim>\<open>nil\<close> snapshot is dereferenced.\<close>

definition Compare_ptr :: "Snapshot option \<Rightarrow> Snapshot option \<Rightarrow> panic + DiffResult" where
  "Compare_ptr b c =
     (case (b, c) of
        (Some b', Some c') \<Rightarrow> Inr (Compare b' c')
      | _ \<Rightarrow> Inl (Panic ''invalid memory address or nil pointer dereference''))"

definition Update :: "'w ui_pkg \<Rightarrow> msg \<Rightarrow> 'w Model \<Rightarrow> panic + ('w Model \<times> cmd)" where
  "Update U message m =
     (case message of
        KeyMsg k \<Rightarrow>
          (case key_switch U k m of
             Inl r \<Rightarrow> Inr r
           | Inr (m', cmds) \<Rightarrow>
               (case key_scroll U k m' of
                  Inl r \<Rightarrow> Inr r
                | Inr m'' \<Rightarrow> Inr (m'', tea_Batch cmds)))
      | WindowSizeMsg w h \<Rightarrow>
          (let m1 = m\<lparr>height := h, width := w,
                      widgets := resize U w h (showHelp m) (diffOutput m) (widgets m)\<rparr>;
               m2 = (case diffResult m1 of
                       Some d \<Rightarrow>
                         if state m1 = stateShowingDiff \<and> outputFormat m1 = ''table''
                         then m1\<lparr>widgets := table_SetRows U (buildTableRows d) (widgets m1)\<rparr>
                         else m1
                     | None \<Rightarrow> m1)
           in Inr (m2, tea_Batch [viewport_cmd]))
      | spinner_TickMsg \<Rightarrow>
          (if state m = stateCapturingBaseline \<or> state m = stateCapturingCurrent
           then Inr (m\<lparr>widgets := spinner_Update U (widgets m)\<rparr>, tea_Batch [spinner_Tick])
           else Inr (m, tea_Batch []))
      | baselineCapturedMsg snapshot err \<Rightarrow>
          (case err of
             None \<Rightarrow> Inr (m\<lparr>state := stateBaselineCaptured, baseline := snapshot\<rparr>, tea_Batch [])
           | Some e \<Rightarrow>
               Inr (m\<lparr>state := stateError, baseline := snapshot, error := Some e\<rparr>, tea_Batch []))
      | currentStateCapturedMsg snapshot err \<Rightarrow>
          (case err of
             Some e \<Rightarrow> Inr (m\<lparr>state := stateError, error := Some e\<rparr>, tea_Batch [])
           | None \<Rightarrow>
               (case Compare_ptr (baseline m) snapshot of
                  Inl p \<Rightarrow> Inl p
                | Inr d \<Rightarrow>
                    Inr (m\<lparr>current := snapshot, state := stateShowingDiff, diffResult := Some d\<rparr>,
                         tea_Batch [updateDiffOutputCmd (outputFormat m) (Some d)])))
      | diffOutputUpdatedMsg output \<Rightarrow>
          (if outputFormat m = ''table''
           then Inr (m\<lparr>diffOutput := output\<rparr>,
                     tea_Batch [updateTableWithFilterCmd (resourceFilter m) (diffResult m)])
           else Inr (m\<lparr>diffOutput := output,
                        widgets := viewport_GotoTop U (viewport_SetContent U output (widgets m))\<rparr>,
                     tea_Batch []))
      | resourceDetailLoadedMsg output \<Rightarrow>
          Inr (m\<lparr>widgets := viewport_GotoTop U (viewport_SetContent U output (widgets m))\<rparr>,
               tea_Batch [])
      | tableUpdatedMsg rows \<Rightarrow>
          Inr (m\<lparr>widgets := table_SetRows U rows (widgets m)\<rparr>, tea_Batch [])
      | clearStatusMessageMsg \<Rightarrow> Inr (m\<lparr>statusMessage := ''''\<rparr>, tea_Batch [])
      | other_msg \<Rightarrow> Inr (m, tea_Batch []))"

text \<open>
  The loop of \<^verbatim>\<open>tea.Program.Run\<close>, as far as the program depends on it: it feeds the
  messages to \<^verbatim>\<open>Update\<close> one at a time and ends when \<^verbatim>\<open>Update\<close> returns \<^verbatim>\<open>tea.Quit\<close>. The
  result is the final model and whether the loop has ended.
\<close>

fun run :: "'w ui_pkg \<Rightarrow> 'w Model \<Rightarrow> msg list \<Rightarrow> panic + ('w Model \<times> bool)" where
  "run U m [] = Inr (m, False)"
| "run U m (x # xs) =
     (case Update U x m of
        Inl p \<Rightarrow> Inl p
      | Inr (m', c) \<Rightarrow> if c = tea_Quit then Inr (m', True) else run U m' xs)"

subsection \<open>The command line (package main)\<close>

text \<open>
  What \<^verbatim>\<open>rootCmd.Execute\<close> dispatches to: the \<^verbatim>\<open>start\<close> command, the \<^verbatim>\<open>list\<close> command, or
  an error of the command line. \<open>start_Run\<close> is the \<^verbatim>\<open>Run\<close> closure of \<^verbatim>\<open>start\<close> after the
  program has run: \<open>Some n\<close> is \<^verbatim>\<open>os.Exit(n)\<close>, \<open>None\<close> a normal return. A process whose
  \<^verbatim>\<open>main\<close> returns exits with status 0.
\<close>

datatype command = start_command | list_command | usage_error error

definition start_Run :: "'w Model \<times> error option \<Rightarrow> nat option" where
  "start_Run program_result =
     (case snd program_result of Some err \<Rightarrow> Some 1 | None \<Rightarrow> None)"

definition main :: "command \<Rightarrow> 'w Model \<times> error option \<Rightarrow> nat" where
  "main c program_result =
     (case c of
        start_command \<Rightarrow> (case start_Run program_result of Some n \<Rightarrow> n | None \<Rightarrow> 0)
      | list_command \<Rightarrow> 0
      | usage_error err \<Rightarrow> 1)"

subsection \<open>A session of the program\<close>

text \<open>
  A widget package for the evaluation of the theorems, in which the table is its rows and
  its cursor and the other widgets have no state; and two sessions: the scenario of the
  specification up to the display of the diff, and a capture that fails.
\<close>

definition table_ui :: "(string list list \<times> nat) ui_pkg" where
  "table_ui =
     \<lparr>new_widgets = ([], 0), table_Focused = (\<lambda>w. True),
      table_SelectedRow = (\<lambda>w. if snd w < length (fst w) then fst w ! snd w else []),
      table_MoveUp = (\<lambda>n w. (fst w, snd w - n)),
      table_MoveDown = (\<lambda>n w. (fst w, min (snd w + n) (length (fst w) - 1))),
      table_SetRows = (\<lambda>rows w. (rows, snd w)),
      viewport_LineUp = (\<lambda>n w. w), viewport_LineDown = (\<lambda>n w. w),
      viewport_PageUp = (\<lambda>w. w), viewport_PageDown = (\<lambda>w. w),
      viewport_SetContent = (\<lambda>s w. w), viewport_GotoTop = (\<lambda>w. w),
      resize = (\<lambda>w h help out ws. ws), spinner_Update = (\<lambda>w. w),
      clipboard_WriteAll = (\<lambda>s. None)\<rparr>"

definition ex_session :: "msg list" where
  "ex_session =
     [KeyMsg ''c'', baselineCapturedMsg (Some ex_baseline) None,
      KeyMsg ''c'', currentStateCapturedMsg (Some ex_current) None,
      diffOutputUpdatedMsg '''',
      tableUpdatedMsg (buildTableRows (Compare ex_baseline ex_current))]"

definition session_end :: "'w ui_pkg \<Rightarrow> msg list \<Rightarrow> (state \<times> bool) option" where
  "session_end U msgs =
     (case run U (New U ''myapp'' '''' '''') msgs of
        Inl p \<Rightarrow> None
      | Inr r \<Rightarrow> Some (state (fst r), snd r))"

definition ex_failed_session :: "msg list" where
  "ex_failed_session =
     [KeyMsg ''c'',
      baselineCapturedMsg None (Some ''failed to create Kubernetes client: no configuration'')]"

definition final_model :: "'w ui_pkg \<Rightarrow> msg list \<Rightarrow> 'w Model" where
  "final_model U msgs =
     (case run U (New U ''myapp'' '''' '''') msgs of
        Inl p \<Rightarrow> New U ''myapp'' '''' ''''
      | Inr r \<Rightarrow> fst r)"

text \<open>The models that the sessions reach: the diff on display, the detail of its first
  row, and the error state.\<close>

definition ex_diff_model :: "(string list list \<times> nat) Model" where
  "ex_diff_model =
     (New table_ui ''myapp'' [] [])
       \<lparr>state := stateShowingDiff, baseline := Some ex_baseline, current := Some ex_current,
        diffResult := Some (Compare ex_baseline ex_current),
        widgets := (buildTableRows (Compare ex_baseline ex_current), 0)\<rparr>"

definition ex_detail_model :: "(string list list \<times> nat) Model" where
  "ex_detail_model =
     ex_diff_model\<lparr>selectedResource := Some (added_entry ex_configmap),
                    state := stateShowingResourceDetail\<rparr>"

definition ex_error_model :: "(string list list \<times> nat) Model" where
  "ex_error_model =
     (New table_ui ''myapp'' [] [])
       \<lparr>state := stateError,
        error := Some ''failed to create Kubernetes client: no configuration''\<rparr>"

section \<open>Properties of the diff engine\<close>

subsection \<open>What each loop appends\<close>

lemma range_current_added:
  "added (range_current b cur r) =
     added r @ map (\<lambda>kv. added_entry (snd kv))
                 (filter (\<lambda>kv. map_of (Resources b) (fst kv) = None) cur)"
  by (induction b cur r rule: range_current.induct) (auto split: option.splits)

lemma range_current_modified:
  "modified (range_current b cur r) = modified r @ concat (map (modified_of b) cur)"
  by (induction b cur r rule: range_current.induct)
     (auto simp: modified_of_def split: option.splits)

lemma range_current_removed: "removed (range_current b cur r) = removed r"
  by (induction b cur r rule: range_current.induct) (auto split: option.splits)

lemma range_baseline_removed:
  "removed (range_baseline c bas r) =
     removed r @ map (\<lambda>kv. removed_entry (snd kv))
                   (filter (\<lambda>kv. map_of (Resources c) (fst kv) = None) bas)"
  by (induction c bas r rule: range_baseline.induct) (auto split: option.splits)

lemma range_baseline_added: "added (range_baseline c bas r) = added r"
  by (induction c bas r rule: range_baseline.induct) (auto split: option.splits)

lemma range_baseline_modified: "modified (range_baseline c bas r) = modified r"
  by (induction c bas r rule: range_baseline.induct) (auto split: option.splits)

lemma Compare_added:
  "added (Compare b c) =
     map (\<lambda>kv. added_entry (snd kv))
       (filter (\<lambda>kv. map_of (Resources b) (fst kv) = None) (Resources c))"
  by (simp add: Compare_def range_baseline_added range_current_added)

lemma Compare_removed:
  "removed (Compare b c) =
     map (\<lambda>kv. removed_entry (snd kv))
       (filter (\<lambda>kv. map_of (Resources c) (fst kv) = None) (Resources b))"
  by (simp add: Compare_def range_baseline_removed range_current_removed)

lemma Compare_modified:
  "modified (Compare b c) = concat (map (modified_of b) (Resources c))"
  by (simp add: Compare_def range_baseline_modified range_current_modified)

subsection \<open>Keys of the emitted entries\<close>

lemma keyed_entry: "keyed s \<Longrightarrow> kv \<in> set (Resources s) \<Longrightarrow> resourceKey (snd kv) = fst kv"
  by (auto simp: keyed_def list_all_iff)

lemma entry_key_simps [simp]:
  "entry_key (added_entry r) = resourceKey r"
  "entry_key (removed_entry r) = resourceKey r"
  "entry_key (modified_entry b r) = resourceKey r"
  by (simp_all add: entry_key_def added_entry_def removed_entry_def modified_entry_def)

lemma keys_filter:
  "list_all (\<lambda>kv. fst kv = resourceKey (snd kv)) xs \<Longrightarrow>
   map (\<lambda>kv. resourceKey (snd kv)) (filter (\<lambda>kv. P (fst kv)) xs) = filter P (map fst xs)"
  by (induction xs) auto

lemma keys_of_added:
  "keyed c \<Longrightarrow> keys_of (added (Compare b c)) =
          filter (\<lambda>k. map_of (Resources b) k = None) (map fst (Resources c))"
  using keys_filter [where P = "\<lambda>k. map_of (Resources b) k = None" and xs = "Resources c"]
  by (simp add: keys_of_def Compare_added comp_def keyed_def)

lemma keys_of_removed:
  "keyed b \<Longrightarrow> keys_of (removed (Compare b c)) =
          filter (\<lambda>k. map_of (Resources c) k = None) (map fst (Resources b))"
  using keys_filter [where P = "\<lambda>k. map_of (Resources c) k = None" and xs = "Resources b"]
  by (simp add: keys_of_def Compare_removed comp_def keyed_def)

lemma keys_of_modified:
  assumes "keyed c"
  shows "keys_of (modified (Compare b c)) =
          map fst (filter (\<lambda>kv. modified_of b kv \<noteq> []) (Resources c))"
proof -
  have "map entry_key (concat (map (modified_of b) xs)) = map fst (filter (\<lambda>kv. modified_of b kv \<noteq> []) xs)"
    if "set xs \<subseteq> set (Resources c)" for xs
    using that keyed_entry [OF assms]
    by (induction xs) (auto simp: modified_of_def split: option.splits)
  then show ?thesis
    by (simp add: keys_of_def Compare_modified)
qed


lemma in_keys_added:
  "keyed c \<Longrightarrow> k \<in> set (keys_of (added (Compare b c))) \<longleftrightarrow>
     map_of (Resources b) k = None \<and> map_of (Resources c) k \<noteq> None"
  by (auto simp: keys_of_added map_of_eq_None_iff)

lemma in_keys_removed:
  "keyed b \<Longrightarrow> k \<in> set (keys_of (removed (Compare b c))) \<longleftrightarrow>
     map_of (Resources c) k = None \<and> map_of (Resources b) k \<noteq> None"
  by (auto simp: keys_of_removed map_of_eq_None_iff)

lemma in_modified_of:
  "e \<in> set (modified_of b kv) \<longleftrightarrow>
     (\<exists>baseRes. map_of (Resources b) (fst kv) = Some baseRes
        \<and> (ResourceVersion (snd kv) \<noteq> ResourceVersion baseRes
             \<or> SpecHash (snd kv) \<noteq> SpecHash baseRes)
        \<and> e = modified_entry baseRes (snd kv))"
  by (cases "map_of (Resources b) (fst kv)") (auto simp: modified_of_def)

lemma in_modified:
  "e \<in> set (modified (Compare b c)) \<longleftrightarrow>
     (\<exists>k res baseRes. (k, res) \<in> set (Resources c) \<and> map_of (Resources b) k = Some baseRes
        \<and> (ResourceVersion res \<noteq> ResourceVersion baseRes \<or> SpecHash res \<noteq> SpecHash baseRes)
        \<and> e = modified_entry baseRes res)"
  unfolding Compare_modified set_concat by (force simp: in_modified_of)

lemma modified_of_nonempty:
  "modified_of b kv \<noteq> [] \<longleftrightarrow>
     (\<exists>baseRes. map_of (Resources b) (fst kv) = Some baseRes
        \<and> (ResourceVersion (snd kv) \<noteq> ResourceVersion baseRes
             \<or> SpecHash (snd kv) \<noteq> SpecHash baseRes))"
  by (cases "map_of (Resources b) (fst kv)") (auto simp: modified_of_def)

lemma in_keys_modified:
  assumes "wf_snapshot c"
  shows "k \<in> set (keys_of (modified (Compare b c))) \<longleftrightarrow>
     (\<exists>res baseRes. map_of (Resources c) k = Some res \<and> map_of (Resources b) k = Some baseRes
        \<and> (ResourceVersion res \<noteq> ResourceVersion baseRes \<or> SpecHash res \<noteq> SpecHash baseRes))"
proof -
  have d: "distinct (map fst (Resources c))" and kd: "keyed c"
    using assms by (simp_all add: wf_snapshot_def map_keys_distinct_def)
  have m: "map_of (Resources c) k' = Some r \<longleftrightarrow> (k', r) \<in> set (Resources c)" for k' r
    using d by simp
  show ?thesis
    unfolding keys_of_modified [OF kd] m
    by (force simp: modified_of_nonempty image_iff)
qed

subsection \<open>Classification of a key present in both snapshots\<close>

lemmas ex_defs = ex_baseline_def ex_current_def ex_deployment_def ex_pod_def ex_configmap_def
  wf_snapshot_def map_keys_distinct_def keyed_def resourceKey_def

lemma ex_wf: "wf_snapshot ex_baseline" "wf_snapshot ex_current"
  by (simp_all add: ex_defs)

text \<open>
  Claim C1. For two snapshots whose maps are keyed by \<open>resourceKey\<close> and a key \<open>k\<close>
  present in both, \<open>Compare\<close> emits an entry for \<open>k\<close> in \<open>modified\<close> if and only if
  the two records differ in \<open>ResourceVersion\<close> or in \<open>SpecHash\<close>; that entry carries the
  old and the new version token and hash; \<open>k\<close> is never emitted as added or removed; and
  when both fields agree \<open>k\<close> is in none of the three sequences.
\<close>

theorem Compare_modified_iff:
  assumes "wf_snapshot base" and "wf_snapshot cur"
    and "map_of (Resources base) k = Some baseRes"
    and "map_of (Resources cur) k = Some res"
  shows "((\<exists>e \<in> set (modified (Compare base cur)). entry_key e = k)
            \<longleftrightarrow> (ResourceVersion res \<noteq> ResourceVersion baseRes \<or> SpecHash res \<noteq> SpecHash baseRes))
       \<and> (\<forall>e \<in> set (modified (Compare base cur)). entry_key e = k \<longrightarrow>
             Type e = Modified
           \<and> OldResourceVersion e = ResourceVersion baseRes
           \<and> NewResourceVersion e = ResourceVersion res
           \<and> OldSpecHash e = SpecHash baseRes \<and> NewSpecHash e = SpecHash res)
       \<and> k \<notin> set (keys_of (added (Compare base cur)))
       \<and> k \<notin> set (keys_of (removed (Compare base cur)))
       \<and> (ResourceVersion res = ResourceVersion baseRes \<and> SpecHash res = SpecHash baseRes
            \<longrightarrow> k \<notin> set (keys_of (modified (Compare base cur))))"
proof -
  have kb: "keyed base" and kc: "keyed cur"
    and dc: "distinct (map fst (Resources cur))"
    using assms(1,2) by (simp_all add: wf_snapshot_def map_keys_distinct_def)
  have iff: "k \<in> set (keys_of (modified (Compare base cur))) \<longleftrightarrow>
      (ResourceVersion res \<noteq> ResourceVersion baseRes \<or> SpecHash res \<noteq> SpecHash baseRes)"
    using assms(3,4) by (simp add: in_keys_modified [OF assms(2)])
  have ex: "(\<exists>e \<in> set (modified (Compare base cur)). entry_key e = k)
      \<longleftrightarrow> k \<in> set (keys_of (modified (Compare base cur)))"
    by (auto simp: keys_of_def)
  have carry: "e = modified_entry baseRes res"
    if "e \<in> set (modified (Compare base cur))" and "entry_key e = k" for e
  proof -
    from that(1) obtain k' r' b' where in_c: "(k', r') \<in> set (Resources cur)"
      and b': "map_of (Resources base) k' = Some b'" and e: "e = modified_entry b' r'"
      unfolding in_modified by blast
    have "k' = resourceKey r'"
      using keyed_entry [OF kc in_c] by simp
    with that(2) e have "k' = k" by simp
    with in_c dc assms(3,4) b' have "r' = res" "b' = baseRes" by simp_all
    with e show ?thesis by simp
  qed
  have fields: "\<forall>e \<in> set (modified (Compare base cur)). entry_key e = k \<longrightarrow>
             Type e = Modified
           \<and> OldResourceVersion e = ResourceVersion baseRes
           \<and> NewResourceVersion e = ResourceVersion res
           \<and> OldSpecHash e = SpecHash baseRes \<and> NewSpecHash e = SpecHash res"
  proof (intro ballI impI)
    fix e assume "e \<in> set (modified (Compare base cur))" and "entry_key e = k"
    then have "e = modified_entry baseRes res" by (rule carry)
    then show "Type e = Modified
           \<and> OldResourceVersion e = ResourceVersion baseRes
           \<and> NewResourceVersion e = ResourceVersion res
           \<and> OldSpecHash e = SpecHash baseRes \<and> NewSpecHash e = SpecHash res"
      by (simp add: modified_entry_def)
  qed
  have na: "k \<notin> set (keys_of (added (Compare base cur)))"
    using assms(3) by (simp add: in_keys_added [OF kc])
  have nr: "k \<notin> set (keys_of (removed (Compare base cur)))"
    using assms(4) by (simp add: in_keys_removed [OF kb])
  show ?thesis
    using iff ex fields na nr by blast
qed

theorem Compare_modified_iff_witness:
  "wf_snapshot ex_baseline \<and> wf_snapshot ex_current
   \<and> map_of (Resources ex_baseline) ''apps/v1/Deployment|myapp|x'' = Some (ex_deployment ''1'')
   \<and> map_of (Resources ex_current) ''apps/v1/Deployment|myapp|x'' = Some (ex_deployment ''2'')
   \<and> (\<exists>e \<in> set (modified (Compare ex_baseline ex_current)).
         entry_key e = ''apps/v1/Deployment|myapp|x'')
   \<and> SpecHash (ex_deployment ''2'') = SpecHash (ex_deployment ''1'')"
  using Compare_modified_iff [of ex_baseline ex_current "''apps/v1/Deployment|myapp|x''"
      "ex_deployment ''1''" "ex_deployment ''2''"] ex_wf
  by (simp add: ex_baseline_def ex_current_def ex_deployment_def)

subsection \<open>The partition of the keys\<close>

text \<open>The scenario of the specification, evaluated.\<close>

lemma ex_Compare:
  "Compare ex_baseline ex_current =
     \<lparr>added = [added_entry ex_configmap], removed = [removed_entry ex_pod],
      modified = [modified_entry (ex_deployment ''1'') (ex_deployment ''2'')]\<rparr>"
  by (simp add: Compare_def ex_baseline_def ex_current_def ex_deployment_def ex_pod_def
      ex_configmap_def)

lemma unchanged_iff:
  "unchanged b c k \<longleftrightarrow>
     (\<exists>res baseRes. map_of (Resources c) k = Some res \<and> map_of (Resources b) k = Some baseRes
        \<and> ResourceVersion res = ResourceVersion baseRes \<and> SpecHash res = SpecHash baseRes)"
  by (auto simp: unchanged_def split: option.splits)

lemma distinct_emitted_keys:
  assumes "wf_snapshot b" and "wf_snapshot c"
  shows "distinct (keys_of (added (Compare b c)) @ keys_of (removed (Compare b c))
                   @ keys_of (modified (Compare b c)))"
proof -
  have kb: "keyed b" and kc: "keyed c"
    and db: "distinct (map fst (Resources b))" and dc: "distinct (map fst (Resources c))"
    using assms by (simp_all add: wf_snapshot_def map_keys_distinct_def)
  have "distinct (keys_of (added (Compare b c)))"
    using dc by (simp add: keys_of_added [OF kc])
  moreover have "distinct (keys_of (removed (Compare b c)))"
    using db by (simp add: keys_of_removed [OF kb])
  moreover have "distinct (keys_of (modified (Compare b c)))"
    using dc by (simp add: keys_of_modified [OF kc] distinct_map_filter)
  moreover have "set (keys_of (added (Compare b c))) \<inter> set (keys_of (removed (Compare b c))) = {}"
    by (auto simp: in_keys_added [OF kc] in_keys_removed [OF kb])
  moreover have "set (keys_of (added (Compare b c))) \<inter> set (keys_of (modified (Compare b c))) = {}"
    by (auto simp: in_keys_added [OF kc] in_keys_modified [OF assms(2)])
  moreover have "set (keys_of (removed (Compare b c))) \<inter> set (keys_of (modified (Compare b c))) = {}"
    by (auto simp: in_keys_removed [OF kb] in_keys_modified [OF assms(2)])
  ultimately show ?thesis by auto
qed

lemma one_class:
  assumes "wf_snapshot b" and "wf_snapshot c"
    and "k \<in> fst ` set (Resources b) \<union> fst ` set (Resources c)"
  shows "exactly_one
           [k \<in> set (keys_of (added (Compare b c))),
            k \<in> set (keys_of (removed (Compare b c))),
            k \<in> set (keys_of (modified (Compare b c))),
            unchanged b c k]"
proof -
  have kb: "keyed b" and kc: "keyed c"
    using assms by (simp_all add: wf_snapshot_def)
  have some: "map_of (Resources b) k \<noteq> None \<or> map_of (Resources c) k \<noteq> None"
    using assms(3) by (simp add: map_of_eq_None_iff)
  show ?thesis
    unfolding exactly_one_def in_keys_added [OF kc] in_keys_removed [OF kb]
      in_keys_modified [OF assms(2)] unchanged_iff
    using some by (cases "map_of (Resources b) k"; cases "map_of (Resources c) k") auto
qed

lemma emitted_keys_subset:
  assumes "wf_snapshot b" and "wf_snapshot c"
  shows "set (keys_of (added (Compare b c))) \<union> set (keys_of (removed (Compare b c)))
          \<union> set (keys_of (modified (Compare b c)))
        \<subseteq> fst ` set (Resources b) \<union> fst ` set (Resources c)"
proof -
  have kb: "keyed b" and kc: "keyed c"
    using assms by (simp_all add: wf_snapshot_def)
  have "k \<in> fst ` set xs \<longleftrightarrow> map_of xs k \<noteq> None" for k :: string and xs :: "(string \<times> ResourceInfo) list"
    by (simp add: map_of_eq_None_iff)
  then show ?thesis
    by (auto simp: in_keys_added [OF kc] in_keys_removed [OF kb] in_keys_modified [OF assms(2)])
qed

text \<open>
  Claim C2. For two snapshots whose maps are keyed by \<open>resourceKey\<close>, every key of
  either map is in exactly one of the four classes added, removed, modified and unchanged;
  the keys of the three emitted sequences are pairwise disjoint (and none is emitted
  twice); and nothing is emitted for a key outside the two maps.
\<close>

theorem Compare_partition:
  assumes "wf_snapshot base" and "wf_snapshot cur"
  shows "(\<forall>k \<in> fst ` set (Resources base) \<union> fst ` set (Resources cur).
            exactly_one
              [k \<in> set (keys_of (added (Compare base cur))),
               k \<in> set (keys_of (removed (Compare base cur))),
               k \<in> set (keys_of (modified (Compare base cur))),
               unchanged base cur k])
       \<and> distinct (keys_of (added (Compare base cur))
                   @ keys_of (removed (Compare base cur))
                   @ keys_of (modified (Compare base cur)))
       \<and> set (keys_of (added (Compare base cur)))
           \<union> set (keys_of (removed (Compare base cur)))
           \<union> set (keys_of (modified (Compare base cur)))
          \<subseteq> fst ` set (Resources base) \<union> fst ` set (Resources cur)"
  using one_class [OF assms] distinct_emitted_keys [OF assms] emitted_keys_subset [OF assms]
  by blast

theorem Compare_partition_witness:
  "wf_snapshot ex_baseline \<and> wf_snapshot ex_current
   \<and> ''v1/Pod|myapp|old-pod'' \<in> fst ` set (Resources ex_baseline) \<union> fst ` set (Resources ex_current)
   \<and> exactly_one
        [''v1/Pod|myapp|old-pod'' \<in> set (keys_of (added (Compare ex_baseline ex_current))),
         ''v1/Pod|myapp|old-pod'' \<in> set (keys_of (removed (Compare ex_baseline ex_current))),
         ''v1/Pod|myapp|old-pod'' \<in> set (keys_of (modified (Compare ex_baseline ex_current))),
         unchanged ex_baseline ex_current ''v1/Pod|myapp|old-pod'']
   \<and> ''v1/Pod|myapp|old-pod'' \<in> set (keys_of (removed (Compare ex_baseline ex_current)))"
proof -
  have mem: "''v1/Pod|myapp|old-pod''
      \<in> fst ` set (Resources ex_baseline) \<union> fst ` set (Resources ex_current)"
    by (simp add: ex_baseline_def)
  have one: "exactly_one
        [''v1/Pod|myapp|old-pod'' \<in> set (keys_of (added (Compare ex_baseline ex_current))),
         ''v1/Pod|myapp|old-pod'' \<in> set (keys_of (removed (Compare ex_baseline ex_current))),
         ''v1/Pod|myapp|old-pod'' \<in> set (keys_of (modified (Compare ex_baseline ex_current))),
         unchanged ex_baseline ex_current ''v1/Pod|myapp|old-pod'']"
    using Compare_partition [OF ex_wf] mem by blast
  have rem: "''v1/Pod|myapp|old-pod'' \<in> set (keys_of (removed (Compare ex_baseline ex_current)))"
    by (simp add: ex_Compare keys_of_def resourceKey_def ex_pod_def)
  show ?thesis
    using ex_wf mem one rem by blast
qed

subsection \<open>Records carried by the entries\<close>

text \<open>
  Claim C3. Every entry of \<open>added\<close> has a cur record and no base record, every
  entry of \<open>removed\<close> has a base record and no cur record, and every entry of
  \<open>modified\<close> has both; each carries the type of its sequence.
\<close>

theorem Compare_entry_records:
  "(\<forall>e \<in> set (added (Compare base cur)).
      Type e = Added \<and> CurrentResource e \<noteq> None \<and> BaselineResource e = None)
   \<and> (\<forall>e \<in> set (removed (Compare base cur)).
      Type e = Removed \<and> BaselineResource e \<noteq> None \<and> CurrentResource e = None)
   \<and> (\<forall>e \<in> set (modified (Compare base cur)).
      Type e = Modified \<and> BaselineResource e \<noteq> None \<and> CurrentResource e \<noteq> None)"
  by (auto simp: Compare_added Compare_removed in_modified
      added_entry_def removed_entry_def modified_entry_def)

theorem Compare_entry_records_witness:
  "added_entry ex_configmap \<in> set (added (Compare ex_baseline ex_current))
   \<and> CurrentResource (added_entry ex_configmap) \<noteq> None
   \<and> BaselineResource (added_entry ex_configmap) = None
   \<and> removed_entry ex_pod \<in> set (removed (Compare ex_baseline ex_current))
   \<and> BaselineResource (removed_entry ex_pod) \<noteq> None
   \<and> CurrentResource (removed_entry ex_pod) = None
   \<and> modified_entry (ex_deployment ''1'') (ex_deployment ''2'')
        \<in> set (modified (Compare ex_baseline ex_current))
   \<and> BaselineResource (modified_entry (ex_deployment ''1'') (ex_deployment ''2'')) \<noteq> None
   \<and> CurrentResource (modified_entry (ex_deployment ''1'') (ex_deployment ''2'')) \<noteq> None"
  using Compare_entry_records [of ex_baseline ex_current]
  by (simp add: ex_Compare)
section \<open>Properties of the resource filter\<close>

lemma MustCompile_valid:
  "valid_pattern P p \<Longrightarrow> \<exists>re. regexp_Compile P p = Inr re \<and> MustCompile P p = Inr re"
  by (auto simp: valid_pattern_def MustCompile_def split: sum.splits)

lemma range_includes_valid:
  "\<forall>p \<in> set incs. valid_pattern P p \<Longrightarrow>
   range_includes P incs t = Inr (\<not> list_ex (\<lambda>p. matches_pattern P p t) incs)"
proof (induction incs)
  case Nil
  then show ?case by simp
next
  case (Cons p incs)
  from Cons.prems obtain re where re: "regexp_Compile P p = Inr re" "MustCompile P p = Inr re"
    using MustCompile_valid [of P p] by auto
  from Cons show ?case
    by (simp add: re matches_pattern_def)
qed

lemma range_includes_match:
  "valid_pattern P p \<Longrightarrow> matches_pattern P p t \<Longrightarrow> range_includes P (p # incs) t = Inr False"
  by (auto simp: valid_pattern_def matches_pattern_def MustCompile_def split: sum.splits)

lemma Compile_fields:
  assumes "Compile P rf = Inr rf'"
  shows "IncludePatterns rf' = IncludePatterns rf" and "ExcludePatterns rf' = ExcludePatterns rf"
    and "ExcludePatterns rf = [] \<Longrightarrow> compiledFilter rf' = None"
  using assms by (auto simp: Compile_def Let_def split: if_splits sum.splits)

text \<open>
  Claim C4, as amended. Let \<open>rf'\<close> be the filter that a successful \<open>Compile\<close> leaves.
  If every include pattern is a valid regular expression, \<open>ShouldExclude\<close> returns a
  boolean, and it is true if and only if the label matches the compiled exclude alternation
  and matches no include pattern. With no exclude pattern it returns false for every
  label. With exclude pattern \<^verbatim>\<open>^v1/Pod$\<close> and include pattern \<^verbatim>\<open>^v1/Pod$\<close> it returns false
  for \<^verbatim>\<open>v1/Pod\<close>, given that the regexp package matches that label against that pattern.
\<close>

theorem ShouldExclude_iff:
  assumes "Compile P rf = Inr rf'"
  shows "((\<forall>p \<in> set (IncludePatterns rf). valid_pattern P p) \<longrightarrow>
            ShouldExclude P rf' label = Inr (excluded_spec P rf' label))
       \<and> (ExcludePatterns rf = [] \<longrightarrow> ShouldExclude P rf' label = Inr False)
       \<and> (ExcludePatterns rf = [''^v1/Pod$''] \<and> IncludePatterns rf = [''^v1/Pod$'']
            \<and> matches_pattern P ''^v1/Pod$'' ''v1/Pod'' \<longrightarrow>
            ShouldExclude P rf' ''v1/Pod'' = Inr False)"
proof (intro conjI impI)
  assume "\<forall>p \<in> set (IncludePatterns rf). valid_pattern P p"
  then have "\<forall>p \<in> set (IncludePatterns rf'). valid_pattern P p"
    by (simp add: Compile_fields(1) [OF assms])
  then show "ShouldExclude P rf' label = Inr (excluded_spec P rf' label)"
    by (simp add: ShouldExclude_def excluded_spec_def matches_excludes_def range_includes_valid
        split: option.splits)
next
  assume "ExcludePatterns rf = []"
  then show "ShouldExclude P rf' label = Inr False"
    by (simp add: ShouldExclude_def Compile_fields(3) [OF assms])
next
  assume a: "ExcludePatterns rf = [''^v1/Pod$''] \<and> IncludePatterns rf = [''^v1/Pod$'']
            \<and> matches_pattern P ''^v1/Pod$'' ''v1/Pod''"
  then have v: "valid_pattern P ''^v1/Pod$''"
    by (auto simp: matches_pattern_def valid_pattern_def split: sum.splits)
  have "IncludePatterns rf' = [''^v1/Pod$'']"
    using a by (simp add: Compile_fields(1) [OF assms])
  then show "ShouldExclude P rf' ''v1/Pod'' = Inr False"
    using a v by (simp add: ShouldExclude_def range_includes_match del: range_includes.simps
        split: option.splits)
qed


lemma ex_pod_matches: "matches_pattern rx_pkg ''^v1/Pod$'' ''v1/Pod''"
  by code_simp

lemma ex_pod_valid: "valid_pattern rx_pkg ''^v1/Pod$''"
  by code_simp

lemma ex_paren_invalid: "\<not> valid_pattern rx_pkg ''(''"
  by code_simp

lemma ex_compile_pod:
  "Compile rx_pkg (ex_filter incs [''^v1/Pod$'']) = Inr (ex_compiled (ex_filter incs [''^v1/Pod$'']))"
  apply (simp add: ex_compiled_def)
  apply code_simp
  done

lemma ex_compile_none:
  "Compile rx_pkg (ex_filter [''^v1/Pod$''] []) = Inr (ex_compiled (ex_filter [''^v1/Pod$''] []))"
  by (simp add: ex_compiled_def Compile_def ex_filter_def WithIncludes_def WithExcludes_def
      NewResourceFilter_def)

lemma ex_filter_fields [simp]:
  "IncludePatterns (ex_filter incs excs) = incs" "ExcludePatterns (ex_filter incs excs) = excs"
  by (simp_all add: ex_filter_def WithIncludes_def WithExcludes_def NewResourceFilter_def)

text \<open>The reference regexp package satisfies the hypotheses; both instances evaluate.\<close>

theorem ShouldExclude_iff_witness:
  "Compile rx_pkg (ex_filter [''^v1/Pod$''] [''^v1/Pod$''])
     = Inr (ex_compiled (ex_filter [''^v1/Pod$''] [''^v1/Pod$'']))
   \<and> list_all (valid_pattern rx_pkg) (IncludePatterns (ex_filter [''^v1/Pod$''] [''^v1/Pod$'']))
   \<and> matches_pattern rx_pkg ''^v1/Pod$'' ''v1/Pod''
   \<and> ShouldExclude rx_pkg (ex_compiled (ex_filter [''^v1/Pod$''] [''^v1/Pod$''])) ''v1/Pod''
       = Inr False
   \<and> Compile rx_pkg (ex_filter [''^v1/Pod$''] [])
       = Inr (ex_compiled (ex_filter [''^v1/Pod$''] []))
   \<and> ShouldExclude rx_pkg (ex_compiled (ex_filter [''^v1/Pod$''] [])) ''v1/Pod'' = Inr False"
proof -
  have a: "ShouldExclude rx_pkg (ex_compiled (ex_filter [''^v1/Pod$''] [''^v1/Pod$''])) ''v1/Pod''
       = Inr False"
    using ShouldExclude_iff [OF ex_compile_pod, of "[''^v1/Pod$'']" "''v1/Pod''"] ex_pod_matches
    by simp
  have b: "ShouldExclude rx_pkg (ex_compiled (ex_filter [''^v1/Pod$''] [])) ''v1/Pod'' = Inr False"
    using ShouldExclude_iff [OF ex_compile_none, of "''v1/Pod''"] by simp
  show ?thesis
    using a b ex_compile_pod [of "[''^v1/Pod$'']"] ex_compile_none ex_pod_matches ex_pod_valid
    by simp
qed

text \<open>
  Claim C4 as stated fails where an include pattern is not a valid regular expression:
  with exclude pattern \<^verbatim>\<open>^v1/Pod$\<close> and include pattern \<^verbatim>\<open>(\<close> the label \<^verbatim>\<open>v1/Pod\<close> matches
  the exclude alternation and no include pattern, and \<open>ShouldExclude\<close> does not return
  true: it panics in \<open>MustCompile\<close>.
\<close>

theorem ShouldExclude_iff_counterexample:
  "Compile rx_pkg (ex_filter [''(''] [''^v1/Pod$''])
     = Inr (ex_compiled (ex_filter [''(''] [''^v1/Pod$'']))
   \<and> excluded_spec rx_pkg (ex_compiled (ex_filter [''(''] [''^v1/Pod$''])) ''v1/Pod''
   \<and> ShouldExclude rx_pkg (ex_compiled (ex_filter [''(''] [''^v1/Pod$''])) ''v1/Pod''
       \<noteq> Inr True
   \<and> ShouldExclude rx_pkg (ex_compiled (ex_filter [''(''] [''^v1/Pod$''])) ''v1/Pod''
       = Inl (Panic ''regexp: Compile((): error parsing regexp: missing closing )'')"
proof -
  have 1: "excluded_spec rx_pkg (ex_compiled (ex_filter [''(''] [''^v1/Pod$''])) ''v1/Pod''"
    by code_simp
  have 2: "ShouldExclude rx_pkg (ex_compiled (ex_filter [''(''] [''^v1/Pod$''])) ''v1/Pod''
       = Inl (Panic ''regexp: Compile((): error parsing regexp: missing closing )'')"
    by code_simp
  show ?thesis
    using ex_compile_pod [of "[''('']"] 1 2 by simp
qed


lemma Compile_ok:
  assumes "ExcludePatterns rf \<noteq> []"
    and "regexp_Compile P (''('' @ Join (ExcludePatterns rf) '')|('' @ '')'') = Inr cf"
  shows "Compile P rf = Inr (rf\<lparr>compiledFilter := Some cf\<rparr>)"
  using assms by (simp add: Compile_def)

lemma range_includes_panics:
  assumes "\<forall>p \<in> set pre. valid_pattern P p \<and> \<not> matches_pattern P p label"
    and "regexp_Compile P bad = Inl err"
  shows "range_includes P (pre @ bad # post) label
          = Inl (Panic (''regexp: Compile('' @ bad @ ''): '' @ err))"
  using assms(1)
proof (induction pre)
  case Nil
  then show ?case by (simp add: MustCompile_def assms(2))
next
  case (Cons p pre)
  then obtain re where "regexp_Compile P p = Inr re" "MustCompile P p = Inr re"
    using MustCompile_valid [of P p] by auto
  with Cons show ?case by (simp add: matches_pattern_def)
qed

text \<open>
  Claim C10, as amended. \<open>Compile\<close> reads the exclude patterns only: when the exclude
  alternation compiles, \<open>Compile\<close> succeeds whatever the include patterns are. If then the
  include list holds an invalid pattern, no include pattern listed before the first
  invalid one matches the label, and the label matches the compiled exclude alternation,
  \<open>ShouldExclude\<close> panics in \<open>MustCompile\<close> instead of returning a boolean.
\<close>

theorem ShouldExclude_panics:
  assumes "ExcludePatterns rf \<noteq> []"
    and "regexp_Compile P (''('' @ Join (ExcludePatterns rf) '')|('' @ '')'') = Inr cf"
    and "IncludePatterns rf = pre @ bad # post"
    and "regexp_Compile P bad = Inl err"
    and "\<forall>p \<in> set pre. valid_pattern P p \<and> \<not> matches_pattern P p label"
    and "MatchString P cf label"
  shows "(\<forall>incs. Compile P (rf\<lparr>IncludePatterns := incs\<rparr>)
            = Inr (rf\<lparr>IncludePatterns := incs, compiledFilter := Some cf\<rparr>))
       \<and> Compile P rf = Inr (rf\<lparr>compiledFilter := Some cf\<rparr>)
       \<and> ShouldExclude P (rf\<lparr>compiledFilter := Some cf\<rparr>) label
           = Inl (Panic (''regexp: Compile('' @ bad @ ''): '' @ err))"
proof (intro conjI allI)
  fix incs
  show "Compile P (rf\<lparr>IncludePatterns := incs\<rparr>)
            = Inr (rf\<lparr>IncludePatterns := incs, compiledFilter := Some cf\<rparr>)"
    using Compile_ok [of "rf\<lparr>IncludePatterns := incs\<rparr>" P cf] assms(1,2) by simp
next
  show "Compile P rf = Inr (rf\<lparr>compiledFilter := Some cf\<rparr>)"
    using assms(1,2) by (rule Compile_ok)
next
  show "ShouldExclude P (rf\<lparr>compiledFilter := Some cf\<rparr>) label
           = Inl (Panic (''regexp: Compile('' @ bad @ ''): '' @ err))"
    using assms(3,6) range_includes_panics [OF assms(5,4)]
    by (simp add: ShouldExclude_def)
qed


text \<open>An instance: the include patterns \<^verbatim>\<open>^v1/Node$\<close> and \<^verbatim>\<open>(\<close>, the label \<^verbatim>\<open>v1/Pod\<close>.\<close>

theorem ShouldExclude_panics_witness:
  "ExcludePatterns (ex_filter [''^v1/Node$'', ''(''] [''^v1/Pod$'']) \<noteq> []
   \<and> IncludePatterns (ex_filter [''^v1/Node$'', ''(''] [''^v1/Pod$''])
       = [''^v1/Node$''] @ ''('' # []
   \<and> regexp_Compile rx_pkg ''('' = Inl ''error parsing regexp: missing closing )''
   \<and> list_all (\<lambda>p. valid_pattern rx_pkg p \<and> \<not> matches_pattern rx_pkg p ''v1/Pod'')
        [''^v1/Node$'']
   \<and> matches_excludes rx_pkg (ex_compiled (ex_filter [''^v1/Node$'', ''(''] [''^v1/Pod$'']))
        ''v1/Pod''
   \<and> Compile rx_pkg (ex_filter [''^v1/Node$'', ''(''] [''^v1/Pod$''])
       = Inr (ex_compiled (ex_filter [''^v1/Node$'', ''(''] [''^v1/Pod$'']))
   \<and> ShouldExclude rx_pkg (ex_compiled (ex_filter [''^v1/Node$'', ''(''] [''^v1/Pod$'']))
        ''v1/Pod''
       = Inl (Panic (''regexp: Compile('' @ ''('' @ ''): ''
                      @ ''error parsing regexp: missing closing )''))"
proof -
  define rf where "rf = ex_filter [''^v1/Node$'', ''(''] [''^v1/Pod$'']"
  define cf where "cf = the (compiledFilter (ex_compiled rf))"
  have cf: "regexp_Compile rx_pkg (''('' @ Join (ExcludePatterns rf) '')|('' @ '')'') = Inr cf"
    unfolding cf_def rf_def by code_simp
  have m: "MatchString rx_pkg cf ''v1/Pod''"
    unfolding cf_def rf_def by code_simp
  have bad: "regexp_Compile rx_pkg ''('' = Inl ''error parsing regexp: missing closing )''"
    by code_simp
  have ne: "ExcludePatterns rf \<noteq> []"
    by (simp add: rf_def)
  have pre1: "valid_pattern rx_pkg ''^v1/Node$'' \<and> \<not> matches_pattern rx_pkg ''^v1/Node$'' ''v1/Pod''"
    by code_simp
  have pre: "\<forall>p \<in> set [''^v1/Node$'']. valid_pattern rx_pkg p \<and> \<not> matches_pattern rx_pkg p ''v1/Pod''"
    using pre1 by simp
  have inc: "IncludePatterns rf = [''^v1/Node$''] @ ''('' # []"
    by (simp add: rf_def)
  note T = ShouldExclude_panics [OF ne cf inc bad pre m]
  have c: "ex_compiled rf = rf\<lparr>compiledFilter := Some cf\<rparr>"
    using T by (simp add: ex_compiled_def)
  have me: "matches_excludes rx_pkg (ex_compiled rf) ''v1/Pod''"
    using m by (simp add: c matches_excludes_def)
  show ?thesis
    using T ne inc bad me pre1 unfolding c rf_def [symmetric] by simp
qed

text \<open>
  Claim C10 as stated fails where an include pattern listed before the invalid one matches
  the label: the loop returns false before it reaches the invalid pattern.
\<close>

theorem ShouldExclude_panics_counterexample:
  "''('' \<in> set (IncludePatterns (ex_filter [''^v1/Pod$'', ''(''] [''^v1/Pod$'']))
   \<and> \<not> valid_pattern rx_pkg ''(''
   \<and> Compile rx_pkg (ex_filter [''^v1/Pod$'', ''(''] [''^v1/Pod$''])
       = Inr (ex_compiled (ex_filter [''^v1/Pod$'', ''(''] [''^v1/Pod$'']))
   \<and> matches_excludes rx_pkg (ex_compiled (ex_filter [''^v1/Pod$'', ''(''] [''^v1/Pod$'']))
        ''v1/Pod''
   \<and> ShouldExclude rx_pkg (ex_compiled (ex_filter [''^v1/Pod$'', ''(''] [''^v1/Pod$'']))
        ''v1/Pod'' = Inr False"
proof -
  have 1: "matches_excludes rx_pkg (ex_compiled (ex_filter [''^v1/Pod$'', ''(''] [''^v1/Pod$'']))
        ''v1/Pod''"
    by code_simp
  have 2: "ShouldExclude rx_pkg (ex_compiled (ex_filter [''^v1/Pod$'', ''(''] [''^v1/Pod$'']))
        ''v1/Pod'' = Inr False"
    by code_simp
  show ?thesis
    using 1 2 ex_compile_pod [of "[''^v1/Pod$'', ''('']"] ex_paren_invalid by simp
qed
section \<open>Properties of the presentation state machine\<close>

subsection \<open>The quit key\<close>

lemma key_q:
  "\<not> Matches ''q'' (ForceQuit DefaultKeyMap)"
  "Matches ''q'' (Quit DefaultKeyMap)"
  by (simp_all add: DefaultKeyMap_def Matches_def)

lemma key_switch_q:
  assumes "keyMap m = DefaultKeyMap"
  shows "key_switch U ''q'' m =
     (if state m = stateShowingResourceDetail
      then Inl (m\<lparr>state := stateShowingDiff\<rparr>, nil_cmd)
      else if state m \<noteq> stateCapturingBaseline \<and> state m \<noteq> stateCapturingCurrent
      then Inl (m, tea_Quit)
      else Inr (m, []))"
  unfolding key_switch_def assms by (simp only: key_q if_True if_False)

lemma Update_q:
  assumes "keyMap m = DefaultKeyMap"
  shows "state m = stateShowingResourceDetail \<Longrightarrow>
           Update U (KeyMsg ''q'') m = Inr (m\<lparr>state := stateShowingDiff\<rparr>, nil_cmd)"
    and "state m \<in> {stateReady, stateBaselineCaptured, stateShowingDiff, stateError} \<Longrightarrow>
           Update U (KeyMsg ''q'') m = Inr (m, tea_Quit)"
  by (auto simp: Update_def key_switch_q [OF assms])

text \<open>
  Claim C9, as amended. With the default key map, the quit key \<^verbatim>\<open>q\<close> makes \<open>Update\<close> return
  \<^verbatim>\<open>tea.Quit\<close>, which ends the loop, from the states Ready, BaselineCaptured, ShowingDiff
  and Error. From ShowingResourceDetail it returns to ShowingDiff with no command, and
  the loop goes on.
\<close>

theorem quit_terminates:
  assumes "keyMap m = DefaultKeyMap"
  shows "(state m \<in> {stateReady, stateBaselineCaptured, stateShowingDiff, stateError} \<longrightarrow>
            Update U (KeyMsg ''q'') m = Inr (m, tea_Quit)
          \<and> run U m (KeyMsg ''q'' # rest) = Inr (m, True))
       \<and> (state m = stateShowingResourceDetail \<longrightarrow>
            Update U (KeyMsg ''q'') m = Inr (m\<lparr>state := stateShowingDiff\<rparr>, nil_cmd))"
  using Update_q [OF assms, of U] by simp


subsection \<open>Transitions\<close>

lemma Update_capture:
  assumes "keyMap m = DefaultKeyMap" and "state m = stateReady"
  shows "Update U (KeyMsg ''c'') m =
           Inr (m\<lparr>state := stateCapturingBaseline\<rparr>, tea_Batch [captureBaselineCmd, spinner_Tick])"
proof -
  have "key_switch U ''c'' m =
          Inr (m\<lparr>state := stateCapturingBaseline\<rparr>, [captureBaselineCmd, spinner_Tick])"
    unfolding key_switch_def assms by (simp add: Matches_def DefaultKeyMap_def)
  then show ?thesis
    by (simp add: Update_def key_scroll_def)
qed

lemma Update_continue:
  assumes "keyMap m = DefaultKeyMap" and "state m = stateBaselineCaptured"
  shows "Update U (KeyMsg ''c'') m =
           Inr (m\<lparr>state := stateCapturingCurrent\<rparr>,
                tea_Batch [captureCurrentStateCmd, spinner_Tick])"
proof -
  have "key_switch U ''c'' m =
          Inr (m\<lparr>state := stateCapturingCurrent\<rparr>, [captureCurrentStateCmd, spinner_Tick])"
    unfolding key_switch_def assms by (simp add: Matches_def DefaultKeyMap_def)
  then show ?thesis
    by (simp add: Update_def key_scroll_def)
qed

lemma Update_baselineCaptured:
  "Update U (baselineCapturedMsg snapshot None) m =
     Inr (m\<lparr>state := stateBaselineCaptured, baseline := snapshot\<rparr>, tea_Batch [])"
  "Update U (baselineCapturedMsg snapshot (Some e)) m =
     Inr (m\<lparr>state := stateError, baseline := snapshot, error := Some e\<rparr>, tea_Batch [])"
  by (simp_all add: Update_def)

lemma Update_currentStateCaptured:
  "baseline m = Some b \<Longrightarrow>
   Update U (currentStateCapturedMsg (Some c) None) m =
     Inr (m\<lparr>current := Some c, state := stateShowingDiff, diffResult := Some (Compare b c)\<rparr>,
          tea_Batch [updateDiffOutputCmd (outputFormat m) (Some (Compare b c))])"
  "Update U (currentStateCapturedMsg snapshot (Some e)) m =
     Inr (m\<lparr>state := stateError, error := Some e\<rparr>, tea_Batch [])"
  by (simp_all add: Update_def Compare_ptr_def)

lemma Update_diffOutputUpdated_table:
  "outputFormat m = ''table'' \<Longrightarrow>
   Update U (diffOutputUpdatedMsg output) m =
     Inr (m\<lparr>diffOutput := output\<rparr>,
          tea_Batch [updateTableWithFilterCmd (resourceFilter m) (diffResult m)])"
  by (simp add: Update_def)

lemma Update_tableUpdated:
  "Update U (tableUpdatedMsg rows) m =
     Inr (m\<lparr>widgets := table_SetRows U rows (widgets m)\<rparr>, tea_Batch [])"
  by (simp add: Update_def)

lemma Update_enter:
  assumes "keyMap m = DefaultKeyMap" and "state m = stateShowingDiff"
    and "outputFormat m = ''table''"
    and "table_Focused U (widgets m)"
    and "table_SelectedRow U (widgets m) \<noteq> []"
    and "findSelectedResource m (table_SelectedRow U (widgets m)) = Some resourceDiff"
  shows "Update U (KeyMsg ''enter'') m =
           Inr (m\<lparr>selectedResource := Some resourceDiff, state := stateShowingResourceDetail\<rparr>,
                tea_Batch [loadResourceDetailCmd (Some resourceDiff)])"
proof -
  have "key_switch U ''enter'' m =
          Inr (m\<lparr>selectedResource := Some resourceDiff, state := stateShowingResourceDetail\<rparr>,
               [loadResourceDetailCmd (Some resourceDiff)])"
    unfolding key_switch_def assms(1)
    using assms(2-) by (simp add: Matches_def DefaultKeyMap_def open_detail_def)
  then show ?thesis
    using assms(1) by (simp add: Update_def key_scroll_def scroll_viewport_def Matches_def DefaultKeyMap_def)
qed

subsection \<open>The sessions, evaluated\<close>

lemma table_ui_simps [simp]:
  "new_widgets table_ui = ([], 0)"
  "table_Focused table_ui w = True"
  "table_SetRows table_ui rows w = (rows, snd w)"
  by (simp_all add: table_ui_def)

lemma run_ex_session:
  "run table_ui (New table_ui ''myapp'' [] []) ex_session = Inr (ex_diff_model, False)"
  by (simp add: ex_session_def ex_diff_model_def New_def Update_capture Update_continue
      Update_baselineCaptured Update_currentStateCaptured Update_diffOutputUpdated_table
      Update_tableUpdated)


lemma run_append:
  "run U m (xs @ ys) =
     (case run U m xs of
        Inl p \<Rightarrow> Inl p
      | Inr r \<Rightarrow> if snd r then Inr (fst r, True) else run U (fst r) ys)"
  by (induction xs arbitrary: m) (auto split: sum.splits)

lemma ex_diff_model_fields [simp]:
  "keyMap ex_diff_model = DefaultKeyMap"
  "state ex_diff_model = stateShowingDiff"
  "outputFormat ex_diff_model = ''table''"
  "diffResult ex_diff_model = Some (Compare ex_baseline ex_current)"
  "widgets ex_diff_model = (buildTableRows (Compare ex_baseline ex_current), 0)"
  by (simp_all add: ex_diff_model_def New_def)

lemma ex_selected_row:
  "table_SelectedRow table_ui (buildTableRows (Compare ex_baseline ex_current), 0)
     = plain_row ''Added'' (added_entry ex_configmap)"
  by (simp add: table_ui_def ex_Compare buildTableRows_def)

lemma ex_find_selected:
  "findSelectedResource ex_diff_model (plain_row ''Added'' (added_entry ex_configmap))
     = Some (added_entry ex_configmap)"
  by (simp add: findSelectedResource_def ex_Compare plain_row_def added_entry_def)

lemma Update_ex_enter:
  "Update table_ui (KeyMsg ''enter'') ex_diff_model =
     Inr (ex_detail_model, tea_Batch [loadResourceDetailCmd (Some (added_entry ex_configmap))])"
  unfolding ex_detail_model_def
proof (rule Update_enter)
  show "table_SelectedRow table_ui (widgets ex_diff_model) \<noteq> []"
    by (simp add: ex_selected_row plain_row_def)
  show "findSelectedResource ex_diff_model (table_SelectedRow table_ui (widgets ex_diff_model))
          = Some (added_entry ex_configmap)"
    by (simp add: ex_selected_row ex_find_selected)
qed simp_all

lemma ex_detail_model_fields [simp]:
  "keyMap ex_detail_model = DefaultKeyMap"
  "state ex_detail_model = stateShowingResourceDetail"
  by (simp_all add: ex_detail_model_def)

lemma run_ex_enter:
  "run table_ui (New table_ui ''myapp'' [] []) (ex_session @ [KeyMsg ''enter''])
     = Inr (ex_detail_model, False)"
  by (simp add: run_append run_ex_session Update_ex_enter)

lemma run_ex_enter_q:
  "run table_ui (New table_ui ''myapp'' [] []) (ex_session @ [KeyMsg ''enter'', KeyMsg ''q''])
     = Inr (ex_detail_model\<lparr>state := stateShowingDiff\<rparr>, False)"
  by (simp add: run_append run_ex_session Update_ex_enter Update_q)

lemma run_ex_q:
  "run table_ui (New table_ui ''myapp'' [] []) (ex_session @ [KeyMsg ''q''])
     = Inr (ex_diff_model, True)"
  by (simp add: run_append run_ex_session Update_q)

lemma run_ex_failed_q:
  "run table_ui (New table_ui ''myapp'' [] []) (ex_failed_session @ [KeyMsg ''q''])
     = Inr (ex_error_model, True)"
  by (simp add: ex_failed_session_def ex_error_model_def New_def Update_capture
      Update_baselineCaptured Update_q)

text \<open>Both parts at the models of the session: the diff on display, and the detail view.\<close>

theorem quit_terminates_witness:
  "keyMap ex_diff_model = DefaultKeyMap
   \<and> state ex_diff_model = stateShowingDiff
   \<and> Update table_ui (KeyMsg ''q'') ex_diff_model = Inr (ex_diff_model, tea_Quit)
   \<and> run table_ui ex_diff_model (KeyMsg ''q'' # [KeyMsg ''c'']) = Inr (ex_diff_model, True)
   \<and> keyMap ex_detail_model = DefaultKeyMap
   \<and> state ex_detail_model = stateShowingResourceDetail
   \<and> Update table_ui (KeyMsg ''q'') ex_detail_model
       = Inr (ex_detail_model\<lparr>state := stateShowingDiff\<rparr>, nil_cmd)"
  using quit_terminates [of ex_diff_model table_ui "[KeyMsg ''c'']"]
    quit_terminates [of ex_detail_model table_ui]
  by simp

text \<open>
  Claim C9 as stated fails in ShowingResourceDetail: the session reaches that state with
  the enter key on the first row of the table, and after \<^verbatim>\<open>q\<close> the loop has not ended and
  the state is ShowingDiff.
\<close>

theorem quit_terminates_counterexample:
  "session_end table_ui (ex_session @ [KeyMsg ''enter''])
     = Some (stateShowingResourceDetail, False)
   \<and> session_end table_ui (ex_session @ [KeyMsg ''enter'', KeyMsg ''q''])
     = Some (stateShowingDiff, False)"
  by (simp add: session_end_def run_ex_enter run_ex_enter_q)

subsection \<open>Exit status\<close>

text \<open>The exit status is 0 or 1, whatever the program displayed.\<close>

lemma main_exit_code_le_1: "main c r \<le> 1"
  by (simp add: main_def start_Run_def split: command.splits option.splits)

text \<open>
  Claim C8, evaluated. The session of the scenario ends with \<^verbatim>\<open>q\<close> in ShowingDiff with a
  diff that is not empty, and the exit status is 0, not 2. The session whose capture fails
  ends with \<^verbatim>\<open>q\<close> in the Error state, and the exit status is 0 as well, not 3 or more.
\<close>

theorem main_exit_code_ignores_diff:
  "session_end table_ui (ex_session @ [KeyMsg ''q'']) = Some (stateShowingDiff, True)
   \<and> map_option IsEmpty (diffResult (final_model table_ui (ex_session @ [KeyMsg ''q''])))
       = Some False
   \<and> main start_command (final_model table_ui (ex_session @ [KeyMsg ''q'']), None) = 0
   \<and> session_end table_ui (ex_failed_session @ [KeyMsg ''q'']) = Some (stateError, True)
   \<and> main start_command (final_model table_ui (ex_failed_session @ [KeyMsg ''q'']), None) = 0"
  by (simp add: session_end_def final_model_def run_ex_q run_ex_failed_q main_def start_Run_def
      ex_Compare IsEmpty_def ex_error_model_def)

end
